theory Spec2Isabelle
  imports Complex_Main
begin

section \<open>CARDS model utilities: the embedding\<close>

text \<open>
  The development follows \<^verbatim>\<open>lightning_uq_box/models/cards.py\<close>. Every exception the
  code can raise is a value of \<open>error\<close>, and a computation that can raise returns
  \<open>error + 'a\<close>. Python integers are \<^typ>\<open>int\<close>.

  The noise scheduler computes with floats. Its generators are modelled over the real
  numbers: the model holds the exact value where the program holds a rounded one (and a
  real where the program holds a NaN, an infinity or a complex number). What is proved of
  the scheduler is therefore only what does not depend on rounding: which exception
  construction raises, how many entries a sequence has, closed bounds on the entries (which
  rounding to the nearest float keeps), the recurrence of the running product, and the
  shape and the selection of entries of the lookup. The guided models are modelled over an
  arbitrary entry type.
\<close>

subsection \<open>Exceptions and Python basics\<close>

datatype error =
    AssertionError string
  | KeyError string
  | ZeroDivisionError
  | RuntimeError
  | TypeError
  | IndexError

text \<open>Sequencing of two computations: the first exception raised is the result.\<close>

definition and_then :: "error + 'a \<Rightarrow> ('a \<Rightarrow> error + 'b) \<Rightarrow> error + 'b" where
  "and_then m f = (case m of Inl e \<Rightarrow> Inl e | Inr v \<Rightarrow> f v)"

text \<open>Python's true division \<^verbatim>\<open>a / b\<close>.\<close>

definition py_div :: "real \<Rightarrow> real \<Rightarrow> error + real" where
  "py_div a b = (if b = 0 then Inl ZeroDivisionError else Inr (a / b))"

text \<open>\<^verbatim>\<open>range(n)\<close>: empty when \<open>n \<le> 0\<close>.\<close>

definition py_range :: "int \<Rightarrow> int list" where
  "py_range n = map int [0..<nat n]"

text \<open>
  A list comprehension \<^verbatim>\<open>[f(i) for i in xs]\<close> whose element expression can raise:
  the elements are computed left to right and the first exception aborts the whole list.
\<close>

fun comprehension :: "('a \<Rightarrow> error + 'b) \<Rightarrow> 'a list \<Rightarrow> error + 'b list" where
  "comprehension f [] = Inr []"
| "comprehension f (x # xs) =
     and_then (f x) (\<lambda>y. and_then (comprehension f xs) (\<lambda>ys. Inr (y # ys)))"

text \<open>\<^verbatim>\<open>repr\<close> of a list of strings, as an f-string prints it: \<^verbatim>\<open>['a', 'b']\<close>.\<close>

fun join_repr :: "string list \<Rightarrow> string" where
  "join_repr [] = []"
| "join_repr [s] = [CHR 0x27] @ s @ [CHR 0x27]"
| "join_repr (s # ss) = [CHR 0x27] @ s @ [CHR 0x27] @ '', '' @ join_repr ss"

definition repr_list :: "string list \<Rightarrow> string" where
  "repr_list ss = ''['' @ join_repr ss @ '']''"

subsection \<open>One-dimensional tensor primitives\<close>

text \<open>
  A one-dimensional float tensor is a \<^typ>\<open>real list\<close> of the exact values.
  \<^verbatim>\<open>torch.linspace(start, end, steps)\<close> raises for a negative number of steps, returns
  \<open>[start]\<close> for one step, and otherwise \<open>steps\<close> values with the constant increment
  \<open>(end - start) / (steps - 1)\<close>, which the program rounds to float32.
\<close>

definition torch_linspace :: "real \<Rightarrow> real \<Rightarrow> int \<Rightarrow> error + real list" where
  "torch_linspace start stop steps =
     (if steps < 0 then Inl RuntimeError
      else if steps = 1 then Inr [start]
      else Inr (map (\<lambda>i. start + real i * ((stop - start) / real_of_int (steps - 1)))
                  [0..<nat steps]))"

text \<open>\<^verbatim>\<open>torch.ones(n)\<close>: a negative size is refused.\<close>

definition torch_ones :: "int \<Rightarrow> error + real list" where
  "torch_ones n = (if n < 0 then Inl RuntimeError else Inr (replicate (nat n) 1))"

definition torch_sigmoid :: "real \<Rightarrow> real" where
  "torch_sigmoid v = 1 / (1 + exp (- v))"

text \<open>\<^verbatim>\<open>Tensor.cumprod(dim=0)\<close>: the running products.\<close>

fun cumprod_from :: "real \<Rightarrow> real list \<Rightarrow> real list" where
  "cumprod_from acc [] = []"
| "cumprod_from acc (v # vs) = (acc * v) # cumprod_from (acc * v) vs"

definition cumprod :: "real list \<Rightarrow> real list" where
  "cumprod vs = cumprod_from 1 vs"

subsection \<open>NoiseScheduler: the schedule generators\<close>

definition valid_schedules :: "string list" where
  "valid_schedules =
     [''linear'', ''const'', ''quad'', ''jsd'', ''sigmoid'', ''cosine'', ''cosine_anneal'']"

text \<open>
  Each generator is a method reading \<^verbatim>\<open>self.n_steps\<close>, \<^verbatim>\<open>self.beta_start\<close> and
  \<^verbatim>\<open>self.beta_end\<close>; here it takes the attributes it reads as arguments.
\<close>

definition linear_schedule :: "int \<Rightarrow> real \<Rightarrow> real \<Rightarrow> error + real list" where
  "linear_schedule n_steps beta_start beta_end = torch_linspace beta_start beta_end n_steps"

text \<open>
  \<^verbatim>\<open>beta_end * torch.ones(n_steps)\<close>; the program rounds the products to float32 (a
  \<open>beta_end\<close> below the float32 range becomes 0).
\<close>

definition constant_schedule :: "int \<Rightarrow> real \<Rightarrow> error + real list" where
  "constant_schedule n_steps beta_end =
     and_then (torch_ones n_steps) (\<lambda>ones. Inr (map (\<lambda>v. beta_end * v) ones))"

text \<open>
  \<^verbatim>\<open>beta ** 0.5\<close> is the square root for a non-negative float. For a negative float Python
  yields a complex number and the tensor is complex; neither raises, and the model holds
  a real list of the same length there.
\<close>

definition quadratic_schedule :: "int \<Rightarrow> real \<Rightarrow> real \<Rightarrow> error + real list" where
  "quadratic_schedule n_steps beta_start beta_end =
     and_then (torch_linspace (sqrt beta_start) (sqrt beta_end) n_steps)
       (\<lambda>ls. Inr (map (\<lambda>v. v ^ 2) ls))"

definition sigmoid_schedule :: "int \<Rightarrow> real \<Rightarrow> real \<Rightarrow> error + real list" where
  "sigmoid_schedule n_steps beta_start beta_end =
     and_then (torch_linspace (- 6) 6 n_steps)
       (\<lambda>ls. let betas = map (\<lambda>v. torch_sigmoid v * (beta_end - beta_start) + beta_start) ls
             in Inr (map torch_sigmoid betas))"

definition max_beta :: real where
  "max_beta = 999 / 1000"

definition cosine_s :: real where
  "cosine_s = 8 / 1000"

text \<open>The element expression of the cosine schedule, for the loop variable \<open>i\<close>.\<close>

definition cosine_entry :: "int \<Rightarrow> int \<Rightarrow> error + real" where
  "cosine_entry n_steps i =
     and_then (py_div (of_int (i + 1)) (of_int n_steps)) (\<lambda>hi.
     and_then (py_div (of_int i) (of_int n_steps)) (\<lambda>lo.
     and_then (py_div ((cos ((hi + cosine_s) / (1 + cosine_s) * pi / 2)) ^ 2)
                      ((cos ((lo + cosine_s) / (1 + cosine_s) * pi / 2)) ^ 2)) (\<lambda>q.
     Inr (min (1 - q) max_beta))))"

definition cosine_schedule :: "int \<Rightarrow> error + real list" where
  "cosine_schedule n_steps = comprehension (cosine_entry n_steps) (py_range n_steps)"

text \<open>The element expression of the cosine annealing schedule, for the loop variable \<open>t\<close>.\<close>

definition cosine_anneal_entry :: "int \<Rightarrow> real \<Rightarrow> real \<Rightarrow> int \<Rightarrow> error + real" where
  "cosine_anneal_entry n_steps beta_start beta_end t =
     and_then (py_div (of_int t) (of_int (n_steps - 1))) (\<lambda>q.
     Inr (beta_start + 0.5 * (beta_end - beta_start) * (1 - cos (q * pi))))"

definition cosine_anneal_schedule :: "int \<Rightarrow> real \<Rightarrow> real \<Rightarrow> error + real list" where
  "cosine_anneal_schedule n_steps beta_start beta_end =
     comprehension (cosine_anneal_entry n_steps beta_start beta_end) (py_range n_steps)"

subsection \<open>NoiseScheduler: construction\<close>

record NoiseScheduler =
  schedule :: string
  n_steps :: int
  beta_start :: real
  beta_end :: real
  betas :: "real list"
  betas_sqrt :: "real list"
  alphas :: "real list"
  alphas_cumprod :: "real list"
  alphas_bar_sqrt :: "real list"
  one_minus_alphas_bar_sqrt :: "real list"

text \<open>
  The derived sequences computed from the selected betas (the last five assignments of
  \<^verbatim>\<open>__init__\<close>). No operation here raises: \<^verbatim>\<open>torch.sqrt\<close> of a negative entry is a
  NaN in the program.
\<close>

definition derive :: "string \<Rightarrow> int \<Rightarrow> real \<Rightarrow> real \<Rightarrow> real list \<Rightarrow> NoiseScheduler" where
  "derive kind n b0 b1 bs =
     (let al = map (\<lambda>b. 1 - b) bs;
          cp = cumprod al
      in \<lparr> schedule = kind, n_steps = n, beta_start = b0, beta_end = b1,
           betas = bs,
           betas_sqrt = map sqrt bs,
           alphas = al,
           alphas_cumprod = cp,
           alphas_bar_sqrt = map sqrt cp,
           one_minus_alphas_bar_sqrt = map (\<lambda>c. sqrt (1 - c)) cp \<rparr>)"

text \<open>
  \<^verbatim>\<open>NoiseScheduler.__init__\<close>: the assertion on the schedule name; then the dictionary
  display, which evaluates all six generators in the order written before the subscript
  \<^verbatim>\<open>[schedule]\<close> selects one (a missing key raises \<^verbatim>\<open>KeyError\<close>); then the derived
  sequences.
\<close>

definition NoiseScheduler_init :: "string \<Rightarrow> int \<Rightarrow> real \<Rightarrow> real \<Rightarrow> error + NoiseScheduler" where
  "NoiseScheduler_init kind n b0 b1 =
     (if kind \<notin> set valid_schedules
      then Inl (AssertionError
             (''Invalid schedule, please choose one of '' @ repr_list valid_schedules @ ''.''))
      else
        and_then (linear_schedule n b0 b1) (\<lambda>v_linear.
        and_then (constant_schedule n b1) (\<lambda>v_const.
        and_then (quadratic_schedule n b0 b1) (\<lambda>v_quad.
        and_then (sigmoid_schedule n b0 b1) (\<lambda>v_sigmoid.
        and_then (cosine_schedule n) (\<lambda>v_cosine.
        and_then (cosine_anneal_schedule n b0 b1) (\<lambda>v_cosine_anneal.
          case map_of
                 [(''linear'', v_linear),
                  (''const'', v_const),
                  (''quad'', v_quad),
                  (''sigmoid'', v_sigmoid),
                  (''cosine'', v_cosine),
                  (''cosine_anneal'', v_cosine_anneal)] kind of
            None \<Rightarrow> Inl (KeyError kind)
          | Some bs \<Rightarrow> Inr (derive kind n b0 b1 bs))))))))"

subsection \<open>NoiseScheduler: the lookup\<close>

text \<open>
  A tensor of any rank, as its shape and its entries in row-major order. An integer index
  tensor is the list of its entries.
\<close>

record ndtensor =
  shape :: "nat list"
  entries :: "real list"

text \<open>
  \<^verbatim>\<open>torch.gather(input, 0, t)\<close> for a one-dimensional \<open>input\<close> and a one-dimensional
  index \<open>t\<close>: an index outside \<open>[0, len(input))\<close> raises.
\<close>

definition torch_gather :: "real list \<Rightarrow> int list \<Rightarrow> error + real list" where
  "torch_gather inp t =
     (if list_all (\<lambda>j. 0 \<le> j \<and> j < int (length inp)) t
      then Inr (map (\<lambda>j. inp ! nat j) t)
      else Inl RuntimeError)"

text \<open>
  \<^verbatim>\<open>Tensor.reshape\<close> to explicit sizes: the number of entries must be the product
  of the sizes.
\<close>

definition torch_reshape :: "real list \<Rightarrow> nat list \<Rightarrow> error + ndtensor" where
  "torch_reshape vs dims =
     (if prod_list dims = length vs then Inr \<lparr> shape = dims, entries = vs \<rparr>
      else Inl RuntimeError)"

text \<open>
  \<^verbatim>\<open>get_noisy_x_at_t(input, t, x)\<close>. Only the shape of \<open>x\<close> is read. The list
  repetition \<^verbatim>\<open>[1] * k\<close> is empty for \<open>k \<le> 0\<close>.
\<close>

definition get_noisy_x_at_t :: "real list \<Rightarrow> int list \<Rightarrow> ndtensor \<Rightarrow> error + ndtensor" where
  "get_noisy_x_at_t inp t x =
     (let shp = shape x in
      and_then (torch_gather inp t) (\<lambda>out.
        let reshape = [length t] @ replicate (nat (int (length shp) - 1)) 1
        in torch_reshape out reshape))"


subsection \<open>Two-dimensional tensors and library layers\<close>

text \<open>
  The inputs of the guided models are tensors of shape \<open>[batch, features]\<close> (the
  docstrings: \<^verbatim>\<open>input of shape [N, n_inputs]\<close>). Such a tensor is its width and the
  list of its rows; it is well formed when every row has that width.

  The type \<open>'a\<close> of the entries is a parameter: it stands for the float type of the
  tensors, with whatever addition and multiplication that type has. No definition below
  uses a law of arithmetic, so what is proved of the guided models holds for rounded
  float arithmetic as it does for exact numbers.
\<close>

record 'a tensor =
  ncols :: nat
  rows :: "'a list list"

definition nrows :: "'a tensor \<Rightarrow> nat" where
  "nrows x = length (rows x)"

definition wf_tensor :: "'a tensor \<Rightarrow> bool" where
  "wf_tensor x = list_all (\<lambda>r. length r = ncols x) (rows x)"

text \<open>
  \<^verbatim>\<open>torch.cat(tensors, dim=1)\<close> (for two-dimensional tensors \<^verbatim>\<open>dim=-1\<close> is the same
  dimension): an element that is not a tensor is a \<^verbatim>\<open>TypeError\<close>, an empty sequence or
  differing numbers of rows a \<^verbatim>\<open>RuntimeError\<close>. Each row of the result is the row of
  the first tensor followed by the rows of the others, in their order.
\<close>

fun cat_cols :: "'a tensor \<Rightarrow> 'a tensor list \<Rightarrow> error + 'a tensor" where
  "cat_cols acc [] = Inr acc"
| "cat_cols acc (x # xs) =
     (if nrows x = nrows acc
      then cat_cols \<lparr> ncols = ncols acc + ncols x, rows = map2 (@) (rows acc) (rows x) \<rparr> xs
      else Inl RuntimeError)"

definition torch_cat :: "'a tensor option list \<Rightarrow> error + 'a tensor" where
  "torch_cat ts =
     (if None \<in> set ts then Inl TypeError
      else case map the ts of
             [] \<Rightarrow> Inl RuntimeError
           | x # xs \<Rightarrow> cat_cols x xs)"

text \<open>
  Elementwise multiplication \<^verbatim>\<open>a * b\<close> with broadcasting: along each dimension the
  sizes agree or one of them is 1, and a dimension of size 1 is read at index 0.
\<close>

definition broadcast_dim :: "nat \<Rightarrow> nat \<Rightarrow> nat option" where
  "broadcast_dim a b =
     (if a = b then Some a else if a = 1 then Some b else if b = 1 then Some a else None)"

definition entry :: "'a tensor \<Rightarrow> nat \<Rightarrow> nat \<Rightarrow> 'a" where
  "entry x i j = rows x ! (if nrows x = 1 then 0 else i) ! (if ncols x = 1 then 0 else j)"

definition torch_mul :: "'a::times tensor \<Rightarrow> 'a tensor \<Rightarrow> error + 'a tensor" where
  "torch_mul a b =
     (case (broadcast_dim (nrows a) (nrows b), broadcast_dim (ncols a) (ncols b)) of
        (Some n, Some m) \<Rightarrow>
          Inr \<lparr> ncols = m,
                rows = map (\<lambda>i. map (\<lambda>j. entry a i j * entry b i j) [0..<m]) [0..<n] \<rparr>
      | _ \<Rightarrow> Inl RuntimeError)"

text \<open>
  \<^verbatim>\<open>Tensor.view(-1, n)\<close>: the entries in row-major order, cut into rows of width \<open>n\<close>.
  Width 0, or a number of entries that \<open>n\<close> does not divide, raises.
\<close>

definition torch_view :: "'a tensor \<Rightarrow> nat \<Rightarrow> error + 'a tensor" where
  "torch_view x n =
     (let flat = concat (rows x) in
      if n = 0 \<or> length flat mod n \<noteq> 0 then Inl RuntimeError
      else Inr \<lparr> ncols = n,
                 rows = map (\<lambda>i. take n (drop (i * n) flat)) [0..<length flat div n] \<rparr>)"

text \<open>
  The values a constructor draws for a fresh layer (\<^verbatim>\<open>nn.Linear\<close>'s initial weight and
  bias, and the gate table after \<^verbatim>\<open>uniform_()\<close>) are arguments of the model.
\<close>

record 'a layer_init =
  init_weight :: "nat \<Rightarrow> nat \<Rightarrow> 'a"
  init_bias :: "nat \<Rightarrow> 'a"
  init_gate :: "nat \<Rightarrow> nat \<Rightarrow> 'a"

text \<open>
  \<^verbatim>\<open>nn.Linear\<close>: \<open>y = x W\<^sup>T + b\<close>, on an input whose width is \<open>in_features\<close>. The
  products of one output entry are added to the bias from left to right (the library does
  not fix the order; no theorem depends on it).
\<close>

record 'a Linear =
  in_features :: nat
  out_features :: nat
  weight :: "nat \<Rightarrow> nat \<Rightarrow> 'a"
  bias :: "nat \<Rightarrow> 'a"

definition nn_Linear :: "'a layer_init \<Rightarrow> nat \<Rightarrow> nat \<Rightarrow> 'a Linear" where
  "nn_Linear p n_in n_out =
     \<lparr> in_features = n_in, out_features = n_out, weight = init_weight p, bias = init_bias p \<rparr>"

definition Linear_forward :: "'a::{plus,times} Linear \<Rightarrow> 'a tensor \<Rightarrow> error + 'a tensor" where
  "Linear_forward l x =
     (if ncols x = in_features l
      then Inr \<lparr> ncols = out_features l,
                 rows = map (\<lambda>r. map (\<lambda>j. foldl (+) (bias l j)
                                              (map (\<lambda>k. r ! k * weight l j k)
                                                 [0..<in_features l]))
                                  [0..<out_features l])
                            (rows x) \<rparr>
      else Inl RuntimeError)"

text \<open>
  \<^verbatim>\<open>nn.Embedding\<close>: one table row per index. An index outside \<open>[0, num_embeddings)\<close>
  raises \<^verbatim>\<open>IndexError\<close>, or \<^verbatim>\<open>RuntimeError\<close> when the table is empty. The index tensor
  is the list of its entries, so the result has one row per index.
\<close>

record 'a Embedding =
  num_embeddings :: nat
  embedding_dim :: nat
  table :: "nat \<Rightarrow> nat \<Rightarrow> 'a"

definition nn_Embedding :: "'a layer_init \<Rightarrow> nat \<Rightarrow> nat \<Rightarrow> 'a Embedding" where
  "nn_Embedding p n d = \<lparr> num_embeddings = n, embedding_dim = d, table = init_gate p \<rparr>"

definition Embedding_forward :: "'a Embedding \<Rightarrow> int list \<Rightarrow> error + 'a tensor" where
  "Embedding_forward e t =
     (if list_all (\<lambda>j. 0 \<le> j \<and> j < int (num_embeddings e)) t
      then Inr \<lparr> ncols = embedding_dim e,
                 rows = map (\<lambda>j. map (table e (nat j)) [0..<embedding_dim e]) t \<rparr>
      else if num_embeddings e = 0 then Inl RuntimeError
      else Inl IndexError)"

text \<open>
  \<^verbatim>\<open>nn.Softplus()\<close> applies the library's softplus function to every entry; \<open>sp\<close> is
  that function on one entry.
\<close>

definition Softplus_forward :: "('a \<Rightarrow> 'a) \<Rightarrow> 'a tensor \<Rightarrow> error + 'a tensor" where
  "Softplus_forward sp x = Inr \<lparr> ncols = ncols x, rows = map (map sp) (rows x) \<rparr>"

subsection \<open>ConditionalLinear\<close>

record 'a ConditionalLinear =
  n_outputs :: nat
  lin :: "'a Linear"
  embed :: "'a Embedding"

definition ConditionalLinear_init ::
  "'a layer_init \<Rightarrow> nat \<Rightarrow> nat \<Rightarrow> nat \<Rightarrow> 'a ConditionalLinear" where
  "ConditionalLinear_init p n_in n_out n_st =
     \<lparr> n_outputs = n_out,
       lin = nn_Linear p n_in n_out,
       embed = nn_Embedding p n_st n_out \<rparr>"

definition ConditionalLinear_forward ::
  "'a::{plus,times} ConditionalLinear \<Rightarrow> 'a tensor \<Rightarrow> int list \<Rightarrow> error + 'a tensor" where
  "ConditionalLinear_forward c x t =
     and_then (Linear_forward (lin c) x) (\<lambda>out.
     and_then (Embedding_forward (embed c) t) (\<lambda>gamma.
     and_then (torch_view gamma (n_outputs c)) (\<lambda>g.
     torch_mul g out)))"

subsection \<open>DiffusionSequential\<close>

text \<open>
  A stage of the container is a \<open>ConditionalLinear\<close>, an \<^verbatim>\<open>nn.Linear\<close>, or any other
  module taking the activation alone (an activation function, a normalisation layer); such
  a module is the function it computes on its input under the parameters and buffers it
  holds when called.
\<close>

datatype 'a module =
    CondLinear "'a ConditionalLinear"
  | NNLinear "'a Linear"
  | Layer "'a tensor \<Rightarrow> error + 'a tensor"

fun DiffusionSequential_forward ::
  "'a::{plus,times} module list \<Rightarrow> 'a tensor \<Rightarrow> int list \<Rightarrow> error + 'a tensor" where
  "DiffusionSequential_forward [] inp t = Inr inp"
| "DiffusionSequential_forward (m # ms) inp t =
     and_then
       (case m of
          CondLinear c \<Rightarrow> ConditionalLinear_forward c inp t
        | NNLinear l \<Rightarrow> Linear_forward l inp
        | Layer f \<Rightarrow> f inp)
       (\<lambda>out. DiffusionSequential_forward ms out t)"

subsection \<open>ConditionalGuidedLinearModel\<close>

record 'a ConditionalGuidedLinearModel =
  n_steps :: nat
  x_dim :: nat
  y_dim :: nat
  cat_x :: bool
  cat_y_pred :: bool
  model :: "'a module list"

text \<open>
  The loop of \<^verbatim>\<open>__init__\<close> over \<^verbatim>\<open>range(1, len(layer_sizes))\<close>: each round appends
  a gated layer from \<open>layer_sizes[idx - 1]\<close> to \<open>layer_sizes[idx]\<close> and the activation.
  \<open>rnd idx\<close> are the initial values of the layer built in round \<open>idx\<close>.
\<close>

definition gated_layers ::
  "(nat \<Rightarrow> 'a layer_init) \<Rightarrow> nat \<Rightarrow> nat list \<Rightarrow> ('a tensor \<Rightarrow> error + 'a tensor) \<Rightarrow>
   'a module list" where
  "gated_layers rnd n_st layer_sizes activation_fn =
     concat (map (\<lambda>idx.
               [CondLinear (ConditionalLinear_init (rnd idx)
                  (layer_sizes ! (idx - 1)) (layer_sizes ! idx) n_st),
                Layer activation_fn])
             [1..<length layer_sizes])"

text \<open>
  \<^verbatim>\<open>__init__\<close>. \<open>rnd 0\<close> are the initial values of the final \<^verbatim>\<open>nn.Linear\<close>. Sizes
  are natural numbers: the layer constructors refuse negative ones.
\<close>

definition ConditionalGuidedLinearModel_init ::
  "(nat \<Rightarrow> 'a layer_init) \<Rightarrow> nat \<Rightarrow> nat \<Rightarrow> nat \<Rightarrow> nat list \<Rightarrow> nat \<Rightarrow> bool \<Rightarrow> bool \<Rightarrow>
   ('a tensor \<Rightarrow> error + 'a tensor) \<Rightarrow> 'a ConditionalGuidedLinearModel" where
  "ConditionalGuidedLinearModel_init rnd n_st xd yd n_hidden n_out cx cy activation_fn =
     (let data_dim = yd;
          data_dim = (if cx then data_dim + xd else data_dim);
          data_dim = (if cy then data_dim + yd else data_dim);
          layer_sizes = [data_dim] @ n_hidden;
          layers = gated_layers rnd n_st layer_sizes activation_fn;
          layers = layers @ [NNLinear (nn_Linear (rnd 0) (last layer_sizes) n_out)]
      in \<lparr> n_steps = n_st, x_dim = xd, y_dim = yd, cat_x = cx, cat_y_pred = cy,
           model = layers \<rparr>)"

text \<open>
  \<^verbatim>\<open>forward(x, y_t, y_0_hat, t)\<close>. The arguments \<open>x\<close> and \<open>y_0_hat\<close> may be
  \<^verbatim>\<open>None\<close> (the convolutional model passes \<^verbatim>\<open>None\<close> for both).
\<close>

definition ConditionalGuidedLinearModel_forward ::
  "'a::{plus,times} ConditionalGuidedLinearModel \<Rightarrow> 'a tensor option \<Rightarrow> 'a tensor \<Rightarrow>
   'a tensor option \<Rightarrow> int list \<Rightarrow> error + 'a tensor" where
  "ConditionalGuidedLinearModel_forward m x y_t y_0_hat t =
     and_then
       (if cat_x m then
          (if cat_y_pred m then torch_cat [Some y_t, y_0_hat, x]
           else torch_cat [Some y_t, x])
        else
          (if cat_y_pred m then torch_cat [Some y_t, y_0_hat]
           else Inr y_t))
       (\<lambda>eps_pred. DiffusionSequential_forward (model m) eps_pred t)"

subsection \<open>ConditionalGuidedConvModel\<close>

text \<open>
  An encoder is the function it computes and its output layer, which
  \<^verbatim>\<open>_get_output_layer_name_and_module\<close> finds.
\<close>

record ('x, 'a) Encoder =
  enc_forward :: "'x \<Rightarrow> error + 'a tensor"
  output_layer :: "string \<times> 'a Linear"

text \<open>
  Modelled from the spec: \<^verbatim>\<open>_get_output_layer_name_and_module\<close> of
  \<^verbatim>\<open>lightning_uq_box.uq_methods.utils\<close> is not among the sources. The specification
  describes the encoder as "any feature extractor exposing a final linear-like layer whose
  output width is introspectable"; the helper returns that layer with its name.
\<close>

definition get_output_layer_name_and_module :: "('x, 'a) Encoder \<Rightarrow> string \<times> 'a Linear" where
  "get_output_layer_name_and_module enc = output_layer enc"

record ('x, 'a) ConditionalGuidedConvModel =
  encoder :: "('x, 'a) Encoder"
  cond_guide_model :: "'a ConditionalGuidedLinearModel"
  conv_n_steps :: nat
  norm :: "'a tensor \<Rightarrow> error + 'a tensor"
  connect_module :: "'a module list"

text \<open>
  \<^verbatim>\<open>__init__\<close>. The library layers it creates are arguments: \<open>batch_norm k eps\<close> stands
  for the layer \<^verbatim>\<open>nn.BatchNorm1d(k)\<close> (\<open>eps = None\<close>) or \<^verbatim>\<open>nn.BatchNorm1d(k, eps)\<close>
  (the second positional argument of \<^verbatim>\<open>nn.BatchNorm1d\<close> is \<open>eps\<close>, here the integer
  \<open>encoder_out_features\<close>), and \<open>sp\<close> for the softplus function of \<^verbatim>\<open>nn.Softplus()\<close>.
  \<open>p\<close> are the initial values of the connection layer.
\<close>

definition ConditionalGuidedConvModel_init ::
  "(nat \<Rightarrow> nat option \<Rightarrow> 'a tensor \<Rightarrow> error + 'a tensor) \<Rightarrow> ('a \<Rightarrow> 'a) \<Rightarrow> 'a layer_init \<Rightarrow>
   ('x, 'a) Encoder \<Rightarrow> 'a ConditionalGuidedLinearModel \<Rightarrow>
   error + ('x, 'a) ConditionalGuidedConvModel" where
  "ConditionalGuidedConvModel_init batch_norm sp p enc cgm =
     (if cat_x cgm \<noteq> False then Inl (AssertionError ''Cannot concatenate x'')
      else if cat_y_pred cgm \<noteq> False then Inl (AssertionError ''Cannot concatenate y'')
      else
        let n_st = n_steps cgm;
            encoder_out_features = out_features (snd (get_output_layer_name_and_module enc))
        in if \<not> (encoder_out_features * 2 = y_dim cgm)
           then Inl (AssertionError
                  (''Encoder output features * 2 has to match the y_dim of the guide model '' @
                   ''because of conditional concatenation''))
           else Inr \<lparr> encoder = enc,
                      cond_guide_model = cgm,
                      conv_n_steps = n_st,
                      norm = batch_norm encoder_out_features None,
                      connect_module =
                        [CondLinear (ConditionalLinear_init p
                           encoder_out_features encoder_out_features n_st),
                         Layer (batch_norm encoder_out_features (Some encoder_out_features)),
                         Layer (Softplus_forward sp)] \<rparr>)"

definition ConditionalGuidedConvModel_forward ::
  "('x, 'a::{plus,times}) ConditionalGuidedConvModel \<Rightarrow> 'x \<Rightarrow> 'a tensor \<Rightarrow> 'a tensor \<Rightarrow>
   int list \<Rightarrow> error + 'a tensor" where
  "ConditionalGuidedConvModel_forward m x y_t y_0_hat t =
     and_then (enc_forward (encoder m) x) (\<lambda>x1.
     and_then (norm m x1) (\<lambda>x2.
     and_then (DiffusionSequential_forward (connect_module m) x2 t) (\<lambda>x3.
     and_then (torch_cat [Some y_t, Some y_0_hat]) (\<lambda>y.
     and_then (torch_mul x3 y) (\<lambda>y'.
     ConditionalGuidedLinearModel_forward (cond_guide_model m) None y' None t)))))"

section \<open>Closed forms and specification-side definitions\<close>

text \<open>
  The definitions of this section are not code of the program: they name the values the
  generators of the model return and the wording of the specification, so that the lemmas
  and theorems can state them.
\<close>

text \<open>The argument of the cosine in the cosine schedule, at the fraction \<open>u\<close> of the steps.\<close>

definition cos_arg :: "real \<Rightarrow> real" where
  "cos_arg u = (u + cosine_s) / (1 + cosine_s) * pi / 2"

definition cosine_value :: "int \<Rightarrow> int \<Rightarrow> real" where
  "cosine_value n i =
     min (1 - (cos (cos_arg (of_int (i + 1) / of_int n)))\<^sup>2 /
              (cos (cos_arg (of_int i / of_int n)))\<^sup>2)
         max_beta"

text \<open>The entry \<open>i\<close> of \<^verbatim>\<open>torch.linspace(a, b, n)\<close> for \<open>n \<noteq> 1\<close>.\<close>

definition lin_value :: "real \<Rightarrow> real \<Rightarrow> int \<Rightarrow> nat \<Rightarrow> real" where
  "lin_value a b n i = a + real i * ((b - a) / real_of_int (n - 1))"

definition anneal_value :: "int \<Rightarrow> real \<Rightarrow> real \<Rightarrow> int \<Rightarrow> real" where
  "anneal_value n a b t = a + 0.5 * (b - a) * (1 - cos (of_int t / of_int (n - 1) * pi))"

text \<open>
  The dictionary of \<^verbatim>\<open>NoiseScheduler.__init__\<close> holding the values the six generators
  return when none of them raises, subscripted with \<open>kind\<close>.
\<close>

definition selected_betas :: "string \<Rightarrow> int \<Rightarrow> real \<Rightarrow> real \<Rightarrow> real list option" where
  "selected_betas kind n a b =
     map_of
       [(''linear'', map (lin_value a b n) [0..<nat n]),
        (''const'', replicate (nat n) b),
        (''quad'', map (\<lambda>i. (lin_value (sqrt a) (sqrt b) n i)\<^sup>2) [0..<nat n]),
        (''sigmoid'',
           map (\<lambda>i. torch_sigmoid (torch_sigmoid (lin_value (- 6) 6 n i) * (b - a) + a))
             [0..<nat n]),
        (''cosine'', map (cosine_value n) (py_range n)),
        (''cosine_anneal'', map (anneal_value n a b) (py_range n))] kind"


text \<open>
  The components of the network input of \<open>ConditionalGuidedLinearModel\<close> in the words of
  the specification: in the fixed order \<open>[y_t, y_0_hat, x]\<close>, \<open>y_t\<close> always,
  \<open>y_0_hat\<close> iff \<open>cat_y_pred\<close>, \<open>x\<close> iff \<open>cat_x\<close>; and the width of their
  concatenation.
\<close>

definition enabled_components ::
  "bool \<Rightarrow> bool \<Rightarrow> 'a tensor option \<Rightarrow> 'a tensor \<Rightarrow> 'a tensor option \<Rightarrow>
   'a tensor option list" where
  "enabled_components cx cy x y_t y_0_hat =
     [Some y_t] @ (if cy then [y_0_hat] else []) @ (if cx then [x] else [])"

definition input_width :: "bool \<Rightarrow> bool \<Rightarrow> nat \<Rightarrow> nat \<Rightarrow> nat" where
  "input_width cx cy xd yd = yd + (if cx then xd else 0) + (if cy then yd else 0)"

text \<open>
  Conditions on the arguments of a forward call: the step indices are those of the gate
  tables; the tensors have the widths the model was built for and the same number of rows,
  and there is one step index per row or a single step index.
\<close>

definition in_range :: "nat \<Rightarrow> int list \<Rightarrow> bool" where
  "in_range n_st t = list_all (\<lambda>j. 0 \<le> j \<and> j < int n_st) t"

definition well_shaped ::
  "bool \<Rightarrow> bool \<Rightarrow> nat \<Rightarrow> nat \<Rightarrow> 'a tensor option \<Rightarrow> 'a tensor \<Rightarrow> 'a tensor option \<Rightarrow>
   int list \<Rightarrow> bool"
  where
  "well_shaped cx cy xd yd x y_t y_0_hat t =
     (ncols y_t = yd \<and> (length t = nrows y_t \<or> length t = 1) \<and>
      (cy \<longrightarrow> (\<exists>y0. y_0_hat = Some y0 \<and> ncols y0 = yd \<and> nrows y0 = nrows y_t)) \<and>
      (cx \<longrightarrow> (\<exists>x0. x = Some x0 \<and> ncols x0 = xd \<and> nrows x0 = nrows y_t)))"

text \<open>
  Conditions on the activation function: it keeps the number of rows of whatever it
  returns; it returns on every input and keeps the shape (as every elementwise
  activation does).
\<close>

definition keeps_rows :: "('a tensor \<Rightarrow> error + 'a tensor) \<Rightarrow> bool" where
  "keeps_rows f = (\<forall>u v. f u = Inr v \<longrightarrow> nrows v = nrows u)"

definition shape_preserving :: "('a tensor \<Rightarrow> error + 'a tensor) \<Rightarrow> bool" where
  "shape_preserving f = (\<forall>u. \<exists>v. f u = Inr v \<and> nrows v = nrows u \<and> ncols v = ncols u)"

text \<open>
  What an elementwise product with broadcasting holds at row \<open>i\<close> and column \<open>j\<close>: the
  product of the two entries at that position, a dimension of size 1 being read at index 0.
\<close>

definition product_entry :: "'a::times tensor \<Rightarrow> 'a tensor \<Rightarrow> nat \<Rightarrow> nat \<Rightarrow> 'a" where
  "product_entry a b i j =
     rows a ! (if length (rows a) = 1 then 0 else i) ! (if ncols a = 1 then 0 else j) *
     rows b ! (if length (rows b) = 1 then 0 else i) ! (if ncols b = 1 then 0 else j)"

text \<open>
  Concrete values for the examples, over the reals. The softplus function is that of
  \<^verbatim>\<open>nn.Softplus()\<close> with its defaults \<open>beta = 1\<close> and \<open>threshold = 20\<close>. The initial
  parameters \<open>unit_init\<close> are all weights 1, no bias and every gate 2; in
  \<open>example_init\<close> the weight of input \<open>k\<close> for output \<open>j\<close> is \<open>(j + 1) * 10\<^sup>k\<close> and
  the gate of step \<open>s\<close> for output \<open>c\<close> is \<open>s + c + 2\<close>. The normalisation layers of
  the examples double every entry (without \<open>eps\<close>) or multiply it by \<open>2 + eps\<close>. The
  encoder \<open>example_encoder\<close> returns its input, \<open>linear_encoder\<close> applies its output
  layer; both have the output width 1.
\<close>

definition softplus :: "real \<Rightarrow> real" where
  "softplus v = (if v > 20 then v else ln (1 + exp v))"

definition unit_init :: "real layer_init" where
  "unit_init = \<lparr> init_weight = (\<lambda>j k. 1), init_bias = (\<lambda>j. 0), init_gate = (\<lambda>s c. 2) \<rparr>"

definition example_init :: "real layer_init" where
  "example_init =
     \<lparr> init_weight = (\<lambda>j k. real (j + 1) * 10 ^ k),
       init_bias = (\<lambda>j. 0),
       init_gate = (\<lambda>s c. real (s + c + 2)) \<rparr>"

definition row1 :: "real list \<Rightarrow> real tensor" where
  "row1 vs = \<lparr> ncols = length vs, rows = [vs] \<rparr>"

definition example_norm :: "nat \<Rightarrow> nat option \<Rightarrow> real tensor \<Rightarrow> error + real tensor" where
  "example_norm k eps x =
     Inr \<lparr> ncols = ncols x,
           rows = map (map (\<lambda>v. (case eps of None \<Rightarrow> 2 | Some e \<Rightarrow> 2 + real e) * v)) (rows x) \<rparr>"

definition example_encoder :: "(real tensor, real) Encoder" where
  "example_encoder = \<lparr> enc_forward = Inr, output_layer = (''fc'', nn_Linear unit_init 3 1) \<rparr>"

definition linear_encoder :: "(real tensor, real) Encoder" where
  "linear_encoder =
     \<lparr> enc_forward = Linear_forward (nn_Linear example_init 3 1),
       output_layer = (''fc'', nn_Linear example_init 3 1) \<rparr>"

section \<open>Verification of the NoiseScheduler\<close>

subsection \<open>Sequencing and comprehensions\<close>

lemma and_then_Inl: "and_then (Inl e) f = Inl e"
  by (simp add: and_then_def)

lemma and_then_Inr: "and_then (Inr v) f = f v"
  by (simp add: and_then_def)

lemma comprehension_total:
  "(\<And>x. x \<in> set xs \<Longrightarrow> f x = Inr (g x)) \<Longrightarrow> comprehension f xs = Inr (map g xs)"
  by (induction xs) (simp_all add: and_then_Inr)

lemma set_py_range: "set (py_range n) = {i. 0 \<le> i \<and> i < n}"
proof -
  have "int ` {0..<nat n} = {i. 0 \<le> i \<and> i < n}"
  proof (intro set_eqI iffI)
    fix i assume "i \<in> {i. 0 \<le> i \<and> i < n}"
    then have "i = int (nat i)" "nat i \<in> {0..<nat n}" by auto
    then show "i \<in> int ` {0..<nat n}" by blast
  qed auto
  then show ?thesis by (simp add: py_range_def)
qed


subsection \<open>The cosine schedule never divides by zero\<close>

lemma cos_arg_eq: "cos_arg u = ((u + cosine_s) / (1 + cosine_s)) * (pi / 2)"
  by (simp add: cos_arg_def)

lemma cos_arg_bounds:
  assumes "0 \<le> u" "u < 1"
  shows "0 < cos_arg u" "cos_arg u < pi / 2"
proof -
  have r0: "0 < (u + cosine_s) / (1 + cosine_s)" using assms by (simp add: cosine_s_def)
  have r1: "(u + cosine_s) / (1 + cosine_s) < 1" using assms by (simp add: cosine_s_def)
  show "0 < cos_arg u" unfolding cos_arg_eq using r0 by (intro mult_pos_pos) simp_all
  have "(u + cosine_s) / (1 + cosine_s) * (pi / 2) < 1 * (pi / 2)"
    using r1 by (intro mult_strict_right_mono) simp_all
  then show "cos_arg u < pi / 2" unfolding cos_arg_eq by simp
qed



lemma cosine_entry_total:
  assumes "0 \<le> i" "i < n"
  shows "cosine_entry n i = Inr (cosine_value n i)"
proof -
  have n: "(of_int n :: real) \<noteq> 0" using assms by simp
  have "0 \<le> (of_int i / of_int n :: real)" "(of_int i / of_int n :: real) < 1"
    using assms by simp_all
  then have "0 < cos (cos_arg (of_int i / of_int n))"
    using cos_arg_bounds cos_gt_zero by blast
  then have "(cos ((of_int i / of_int n + cosine_s) / (1 + cosine_s) * pi / 2))\<^sup>2 \<noteq> 0"
    by (simp add: cos_arg_def)
  then show ?thesis using n
    by (simp add: cosine_entry_def py_div_def and_then_Inr cosine_value_def cos_arg_def)
qed

lemma cosine_schedule_total:
  "cosine_schedule n = Inr (map (cosine_value n) (py_range n))"
  unfolding cosine_schedule_def
  by (rule comprehension_total) (simp add: set_py_range cosine_entry_total)


subsection \<open>The other generators\<close>

lemma torch_linspace_total:
  "0 \<le> n \<Longrightarrow> n \<noteq> 1 \<Longrightarrow> torch_linspace a b n = Inr (map (lin_value a b n) [0..<nat n])"
  by (simp add: torch_linspace_def lin_value_def)




lemma linear_schedule_total:
  "0 \<le> n \<Longrightarrow> n \<noteq> 1 \<Longrightarrow> linear_schedule n a b = Inr (map (lin_value a b n) [0..<nat n])"
  by (simp add: linear_schedule_def torch_linspace_total)

lemma constant_schedule_total:
  "0 \<le> n \<Longrightarrow> constant_schedule n b = Inr (replicate (nat n) b)"
  by (simp add: constant_schedule_def torch_ones_def and_then_Inr map_replicate)

lemma quadratic_schedule_total:
  "0 \<le> n \<Longrightarrow> n \<noteq> 1 \<Longrightarrow>
   quadratic_schedule n a b = Inr (map (\<lambda>i. (lin_value (sqrt a) (sqrt b) n i)\<^sup>2) [0..<nat n])"
  by (simp add: quadratic_schedule_def torch_linspace_total and_then_Inr comp_def)

lemma sigmoid_schedule_total:
  "0 \<le> n \<Longrightarrow> n \<noteq> 1 \<Longrightarrow>
   sigmoid_schedule n a b =
     Inr (map (\<lambda>i. torch_sigmoid (torch_sigmoid (lin_value (- 6) 6 n i) * (b - a) + a)) [0..<nat n])"
  by (simp add: sigmoid_schedule_def torch_linspace_total and_then_Inr comp_def)

lemma cosine_anneal_entry_total:
  "n \<noteq> 1 \<Longrightarrow> cosine_anneal_entry n a b t = Inr (anneal_value n a b t)"
  by (simp add: cosine_anneal_entry_def py_div_def and_then_Inr anneal_value_def)

lemma cosine_anneal_schedule_total:
  "n \<noteq> 1 \<Longrightarrow> cosine_anneal_schedule n a b = Inr (map (anneal_value n a b) (py_range n))"
  unfolding cosine_anneal_schedule_def
  by (rule comprehension_total) (simp add: cosine_anneal_entry_total)

lemma cosine_anneal_schedule_single: "cosine_anneal_schedule 1 a b = Inl ZeroDivisionError"
  by (simp add: cosine_anneal_schedule_def py_range_def cosine_anneal_entry_def py_div_def
      and_then_Inl)


text \<open>
  Construction when no generator raises: for a listed kind and a size other than 1 the
  result is decided by the dictionary subscript alone.
\<close>

lemma NoiseScheduler_init_total:
  assumes "kind \<in> set valid_schedules" "0 \<le> n" "n \<noteq> 1"
  shows "NoiseScheduler_init kind n a b =
           (case selected_betas kind n a b of
              None \<Rightarrow> Inl (KeyError kind)
            | Some bs \<Rightarrow> Inr (derive kind n a b bs))"
proof -
  note gens = linear_schedule_total [OF assms(2,3)] constant_schedule_total [OF assms(2)]
    quadratic_schedule_total [OF assms(2,3)] sigmoid_schedule_total [OF assms(2,3)]
    cosine_schedule_total cosine_anneal_schedule_total [OF assms(3)]
  show ?thesis
    unfolding NoiseScheduler_init_def selected_betas_def gens and_then_Inr
    using assms(1) by simp
qed

subsection \<open>Ranges of the entries and the cumulative product\<close>















subsection \<open>Which failure construction raises\<close>

text \<open>
  For a listed name a negative size fails in \<^verbatim>\<open>torch.linspace\<close> and the size 1 in the
  cosine annealing generator; the assertion failure is raised exactly for the names that
  \<open>valid_schedules\<close> does not list.
\<close>

lemma NoiseScheduler_init_negative:
  assumes "kind \<in> set valid_schedules" "n < 0"
  shows "NoiseScheduler_init kind n a b = Inl RuntimeError"
  using assms
  by (simp add: NoiseScheduler_init_def linear_schedule_def torch_linspace_def and_then_Inl)

lemma NoiseScheduler_init_single:
  assumes "kind \<in> set valid_schedules"
  shows "NoiseScheduler_init kind 1 a b = Inl ZeroDivisionError"
proof -
  obtain vs vc where v: "sigmoid_schedule 1 a b = Inr vs" "cosine_schedule 1 = Inr vc"
    by (simp add: sigmoid_schedule_def torch_linspace_def and_then_Inr cosine_schedule_total)
  show ?thesis
    using assms
    by (simp add: NoiseScheduler_init_def linear_schedule_def constant_schedule_def
        quadratic_schedule_def torch_linspace_def torch_ones_def v cosine_anneal_schedule_single
        and_then_Inr and_then_Inl)
qed

lemma assertion_failure_iff:
  "(\<exists>msg. NoiseScheduler_init kind n a b = Inl (AssertionError msg)) \<longleftrightarrow>
   kind \<notin> set valid_schedules"
proof
  assume "\<exists>msg. NoiseScheduler_init kind n a b = Inl (AssertionError msg)"
  then obtain msg where msg: "NoiseScheduler_init kind n a b = Inl (AssertionError msg)" ..
  show "kind \<notin> set valid_schedules"
  proof
    assume listed: "kind \<in> set valid_schedules"
    consider "n < 0" | "n = 1" | "0 \<le> n" "n \<noteq> 1" by linarith
    then show False
    proof cases
      case 1
      then show False using msg NoiseScheduler_init_negative [OF listed] by simp
    next
      case 2
      then show False using msg NoiseScheduler_init_single [OF listed] by simp
    next
      case 3
      then show False
        using msg NoiseScheduler_init_total [OF listed 3]
        by (simp split: option.splits)
    qed
  qed
next
  assume "kind \<notin> set valid_schedules"
  then show "\<exists>msg. NoiseScheduler_init kind n a b = Inl (AssertionError msg)"
    by (simp add: NoiseScheduler_init_def)
qed

subsection \<open>Claims about the NoiseScheduler\<close>




text \<open>
  C10. With \<open>n_steps = 1\<close> the cosine annealing generator divides by \<open>n_steps - 1 = 0\<close>;
  because the dictionary evaluates every generator, construction raises
  \<^verbatim>\<open>ZeroDivisionError\<close> for every listed kind, and no kind at all can be constructed
  (an unlisted one fails the assertion).
\<close>


theorem single_step_construction_fails:
  "cosine_anneal_schedule 1 b0 b1 = Inl ZeroDivisionError \<and>
   (kind \<in> set valid_schedules \<longrightarrow> NoiseScheduler_init kind 1 b0 b1 = Inl ZeroDivisionError) \<and>
   (\<exists>e. NoiseScheduler_init kind 1 b0 b1 = Inl e)"
proof (cases "kind \<in> set valid_schedules")
  case True
  then show ?thesis
    using NoiseScheduler_init_single [OF True] cosine_anneal_schedule_single by simp
next
  case False
  then show ?thesis
    using cosine_anneal_schedule_single by (simp add: NoiseScheduler_init_def)
qed

text \<open>The linear and the constant schedule with a single step.\<close>

theorem single_step_construction_fails_witness:
  "NoiseScheduler_init ''linear'' 1 (1 / 100000) (1 / 100) = Inl ZeroDivisionError \<and>
   NoiseScheduler_init ''const'' 1 (1 / 100000) (1 / 100) = Inl ZeroDivisionError"
  using single_step_construction_fails [of "1 / 100000" "1 / 100" "''linear''"]
        single_step_construction_fails [of "1 / 100000" "1 / 100" "''const''"]
  by (simp add: valid_schedules_def)

text \<open>
  C1 (the code departs from the claim). The name \<open>jsd\<close> is in \<open>valid_schedules\<close> but
  is not a key of the dictionary: the assertion lets it pass, all six generators run, and
  the subscript raises \<^verbatim>\<open>KeyError\<close> instead of the assertion failure that lists the
  kinds.
\<close>

theorem jsd_passes_assertion_then_key_error:
  "NoiseScheduler_init ''jsd'' 1000 (1 / 100000) (1 / 100) = Inl (KeyError ''jsd'')"
  by (simp add: NoiseScheduler_init_total valid_schedules_def selected_betas_def)


section \<open>Verification of the lookup\<close>

lemma torch_gather_in_range:
  assumes "\<forall>j\<in>set t. 0 \<le> j \<and> j < int (length inp)"
  shows "torch_gather inp t = Inr (map (\<lambda>j. inp ! nat j) t)"
  using assms by (simp add: torch_gather_def list_all_iff)

lemma prod_list_replicate_one: "prod_list (replicate k (1::nat)) = 1"
  by (induction k) simp_all

text \<open>
  C9 (amended). For every schedule sequence, every batch \<open>t\<close> of in-range indices and
  every sample tensor \<open>x\<close>, the lookup returns a tensor whose first dimension is the
  length of \<open>t\<close>, whose remaining dimensions are all 1, and whose \<open>j\<close>-th entry is the
  schedule value at index \<open>t[j]\<close>; its rank is the rank of \<open>x\<close> when that is at least
  1, and 1 when \<open>x\<close> has rank 0.
\<close>

theorem get_noisy_x_at_t_shape:
  assumes "\<forall>j\<in>set t. 0 \<le> j \<and> j < int (length inp)"
  shows "\<exists>r. get_noisy_x_at_t inp t x = Inr r \<and>
           shape r = length t # replicate (length (shape x) - 1) 1 \<and>
           length (shape r) = max 1 (length (shape x)) \<and>
           length (entries r) = length t \<and>
           (\<forall>j < length t. entries r ! j = inp ! nat (t ! j))"
proof -
  let ?dims = "length t # replicate (nat (int (length (shape x)) - 1)) 1"
  have k: "nat (int (length (shape x)) - 1) = length (shape x) - 1" by simp
  have "get_noisy_x_at_t inp t x = Inr \<lparr> shape = ?dims, entries = map (\<lambda>j. inp ! nat j) t \<rparr>"
    by (simp add: get_noisy_x_at_t_def torch_gather_in_range [OF assms] and_then_Inr
        torch_reshape_def prod_list_replicate_one Let_def)
  then show ?thesis by (auto simp: k)
qed

text \<open>Two indices into a schedule of three values, for a sample of shape \<open>[2, 4, 4]\<close>.\<close>

theorem get_noisy_x_at_t_shape_witness:
  "\<exists>r. get_noisy_x_at_t [1 / 10, 2 / 10, 3 / 10] [0, 2] \<lparr> shape = [2, 4, 4], entries = replicate 32 0 \<rparr> = Inr r \<and>
       shape r = [2, 1, 1] \<and> entries r = [1 / 10, 3 / 10]"
proof -
  obtain r where r: "get_noisy_x_at_t [1 / 10, 2 / 10, 3 / 10] [0, 2] \<lparr> shape = [2, 4, 4], entries = replicate 32 0 \<rparr> = Inr r"
    "shape r = [2, 1, 1]" "length (entries r) = 2" "\<forall>j<2. entries r ! j = [1 / 10, 2 / 10, 3 / 10] ! nat ([0, 2] ! j)"
    using get_noisy_x_at_t_shape [of "[0, 2]" "[1 / 10, 2 / 10, 3 / 10]" "\<lparr> shape = [2, 4, 4], entries = replicate 32 0 \<rparr>"]
    by (auto simp: numeral_2_eq_2)
  have "entries r ! 0 = 1 / 10" "entries r ! 1 = 3 / 10" using r(4) by (simp_all add: numeral_2_eq_2)
  then have "entries r = [1 / 10, 3 / 10]" using r(3)
    by (cases "entries r"; cases "tl (entries r)") (auto simp: numeral_2_eq_2)
  then show ?thesis using r by blast
qed

text \<open>
  For a sample of rank 0 the repetition \<^verbatim>\<open>[1] * (len(shape) - 1)\<close> is empty, and the
  result has the shape \<open>[2]\<close>: rank 1, not the rank of \<open>x\<close>.
\<close>

theorem get_noisy_x_at_t_rank_counterexample:
  "map_sum id shape (get_noisy_x_at_t [1 / 10, 2 / 10] [0, 1] \<lparr> shape = [], entries = [5] \<rparr>) = Inr [2]"
  by (simp add: get_noisy_x_at_t_def torch_gather_def and_then_def torch_reshape_def)


section \<open>Verification of the guided models\<close>

subsection \<open>The container and the layers\<close>

lemma and_then_Inr_iff:
  "and_then m f = Inr v \<longleftrightarrow> (\<exists>u. m = Inr u \<and> f u = Inr v)"
  by (cases m) (simp_all add: and_then_def)

lemma DiffusionSequential_forward_append:
  "DiffusionSequential_forward (ms @ ms') inp t =
     and_then (DiffusionSequential_forward ms inp t) (\<lambda>h. DiffusionSequential_forward ms' h t)"
proof (induction ms arbitrary: inp)
  case Nil
  then show ?case by (simp add: and_then_Inr)
next
  case (Cons m ms)
  show ?case
    by (cases "case m of CondLinear c \<Rightarrow> ConditionalLinear_forward c inp t
                | NNLinear l \<Rightarrow> Linear_forward l inp | Layer f \<Rightarrow> f inp")
       (simp_all add: and_then_Inl and_then_Inr Cons.IH)
qed

lemma torch_cat_single: "torch_cat [Some a] = Inr a"
  by (simp add: torch_cat_def)

lemma cat_cols_nrows:
  "cat_cols acc xs = Inr r \<Longrightarrow> nrows r = nrows acc"
proof (induction xs arbitrary: acc)
  case Nil
  then show ?case by simp
next
  case (Cons x xs)
  then show ?case
    by (cases "nrows x = nrows acc") (fastforce simp: nrows_def)+
qed

lemma cat_cols_total:
  "\<forall>x\<in>set xs. nrows x = nrows acc \<Longrightarrow>
   \<exists>r. cat_cols acc xs = Inr r \<and> ncols r = ncols acc + sum_list (map ncols xs) \<and>
       nrows r = nrows acc"
proof (induction xs arbitrary: acc)
  case Nil
  then show ?case by simp
next
  case (Cons x xs)
  let ?acc = "\<lparr> ncols = ncols acc + ncols x, rows = map2 (@) (rows acc) (rows x) \<rparr>"
  have eq: "nrows x = nrows acc" using Cons.prems by simp
  then have n: "nrows ?acc = nrows acc" by (simp add: nrows_def)
  have "\<forall>y\<in>set xs. nrows y = nrows ?acc" using Cons.prems n by simp
  from Cons.IH [OF this] show ?case using eq n by (simp add: add.assoc)
qed

lemma Linear_forward_shape:
  assumes "Linear_forward l x = Inr out"
  shows "ncols out = out_features l" "nrows out = nrows x" "wf_tensor out"
  using assms
  by (auto simp: Linear_forward_def nrows_def wf_tensor_def list_all_iff split: if_splits)

lemma Linear_forward_total:
  "ncols x = in_features l \<Longrightarrow> \<exists>out. Linear_forward l x = Inr out"
  by (simp add: Linear_forward_def)

lemma length_concat_rows:
  "length (concat (map (\<lambda>j. map (f j) [0..<d]) t)) = length t * d"
  by (induction t) simp_all

lemma gamma_view:
  assumes "Embedding_forward (nn_Embedding p n_st d) t = Inr gamma" "torch_view gamma d = Inr g"
  shows "nrows g = length t" "ncols g = d"
proof -
  have gamma: "rows gamma = map (\<lambda>j. map (init_gate p (nat j)) [0..<d]) t"
    using assms(1) by (auto simp: Embedding_forward_def nn_Embedding_def split: if_splits)
  have d: "d \<noteq> 0" using assms(2) by (auto simp: torch_view_def Let_def split: if_splits)
  show "nrows g = length t" "ncols g = d"
    using assms(2) d
    by (auto simp: torch_view_def Let_def nrows_def gamma length_concat_rows split: if_splits)
qed

lemma gamma_view_total:
  assumes "list_all (\<lambda>j. 0 \<le> j \<and> j < int n_st) t" "0 < d"
  shows "\<exists>gamma g. Embedding_forward (nn_Embedding p n_st d) t = Inr gamma \<and>
           torch_view gamma d = Inr g"
  using assms
  by (simp add: Embedding_forward_def nn_Embedding_def torch_view_def Let_def length_concat_rows)

lemma torch_mul_gate:
  assumes "nrows a = nrows b \<or> nrows a = 1" "ncols a = ncols b"
  shows "\<exists>r. torch_mul a b = Inr r \<and> nrows r = nrows b \<and> ncols r = ncols b \<and> wf_tensor r"
  using assms
  by (auto simp: torch_mul_def broadcast_dim_def nrows_def wf_tensor_def list_all_iff)

lemma ConditionalLinear_forward_shape:
  assumes "ConditionalLinear_forward (ConditionalLinear_init p n_in n_out n_st) x t = Inr r"
    "length t = nrows x \<or> length t = 1"
  shows "nrows r = nrows x" "ncols r = n_out"
proof -
  obtain out gamma g where
    out: "Linear_forward (nn_Linear p n_in n_out) x = Inr out" and
    gamma: "Embedding_forward (nn_Embedding p n_st n_out) t = Inr gamma" and
    g: "torch_view gamma n_out = Inr g" and
    r: "torch_mul g out = Inr r"
    using assms(1)
    by (auto simp: ConditionalLinear_forward_def ConditionalLinear_init_def and_then_Inr_iff)
  have o: "ncols out = n_out" "nrows out = nrows x"
    using Linear_forward_shape [OF out] by (simp_all add: nn_Linear_def)
  have "nrows g = nrows out \<or> nrows g = 1" "ncols g = ncols out"
    using gamma_view [OF gamma g] o assms(2) by auto
  from torch_mul_gate [OF this] show "nrows r = nrows x" "ncols r = n_out"
    using r o by auto
qed

lemma ConditionalLinear_forward_total:
  assumes "list_all (\<lambda>j. 0 \<le> j \<and> j < int n_st) t" "0 < n_out" "ncols x = n_in"
    "length t = nrows x \<or> length t = 1"
  shows "\<exists>r. ConditionalLinear_forward (ConditionalLinear_init p n_in n_out n_st) x t = Inr r"
proof -
  obtain out where out: "Linear_forward (nn_Linear p n_in n_out) x = Inr out"
    using Linear_forward_total [of x "nn_Linear p n_in n_out"] assms(3)
    by (auto simp: nn_Linear_def)
  obtain gamma g where
    gamma: "Embedding_forward (nn_Embedding p n_st n_out) t = Inr gamma" and
    g: "torch_view gamma n_out = Inr g"
    using gamma_view_total [OF assms(1,2)] by blast
  have o: "ncols out = n_out" "nrows out = nrows x"
    using Linear_forward_shape [OF out] by (simp_all add: nn_Linear_def)
  have "nrows g = nrows out \<or> nrows g = 1" "ncols g = ncols out"
    using gamma_view [OF gamma g] o assms(4) by auto
  from torch_mul_gate [OF this] obtain r where "torch_mul g out = Inr r" by blast
  then show ?thesis
    by (simp add: ConditionalLinear_forward_def ConditionalLinear_init_def out gamma g
        and_then_Inr)
qed

lemma gated_layers_single: "gated_layers rnd n_st [d] act = []"
  by (simp add: gated_layers_def)

lemma gated_layers_snoc:
  "gated_layers rnd n_st (d # hs @ [h]) act =
     gated_layers rnd n_st (d # hs) act @
       [CondLinear (ConditionalLinear_init (rnd (Suc (length hs))) (last (d # hs)) h n_st),
        Layer act]"
proof -
  let ?F = "\<lambda>sizes idx. [CondLinear (ConditionalLinear_init (rnd idx)
                            (sizes ! (idx - 1)) (sizes ! idx) n_st), Layer act]"
  have nth: "(d # hs @ [h]) ! i = (d # hs) ! i" if "i \<le> length hs" for i
    using that nth_append [of "d # hs" "[h]" i] by simp
  have l: "(d # hs @ [h]) ! length hs = last (d # hs)"
    using last_conv_nth [of "d # hs"] nth [of "length hs"] by simp
  have s: "(d # hs @ [h]) ! Suc (length hs) = h"
    using nth_append_length [of "d # hs" h "[]"] by simp
  have same: "?F (d # hs @ [h]) idx = ?F (d # hs) idx" if "idx \<in> set [1..<Suc (length hs)]" for idx
  proof -
    have "idx - 1 \<le> length hs" "idx \<le> length hs" using that by auto
    then show ?thesis using nth by presburger
  qed
  have meq: "map (?F (d # hs @ [h])) [1..<Suc (length hs)] = map (?F (d # hs)) [1..<Suc (length hs)]"
    using same by (rule map_cong [OF refl])
  have final: "?F (d # hs @ [h]) (Suc (length hs)) =
      [CondLinear (ConditionalLinear_init (rnd (Suc (length hs))) (last (d # hs)) h n_st),
       Layer act]"
    using l s by simp
  have upt: "[1..<length (d # hs @ [h])] = [1..<Suc (length hs)] @ [Suc (length hs)]"
    by simp
  have "gated_layers rnd n_st (d # hs @ [h]) act =
          concat (map (?F (d # hs @ [h])) ([1..<Suc (length hs)] @ [Suc (length hs)]))"
    unfolding gated_layers_def upt ..
  also have "\<dots> = concat (map (?F (d # hs @ [h])) [1..<Suc (length hs)]) @
                    ?F (d # hs @ [h]) (Suc (length hs))"
    by (simp only: map_append concat_append list.map concat.simps append_Nil2)
  also have "\<dots> = concat (map (?F (d # hs)) [1..<length (d # hs)]) @
        [CondLinear (ConditionalLinear_init (rnd (Suc (length hs))) (last (d # hs)) h n_st),
         Layer act]"
    unfolding meq final by simp
  finally show ?thesis unfolding gated_layers_def .
qed

lemma stage_pair:
  "DiffusionSequential_forward [CondLinear c, Layer act] inp t =
     and_then (ConditionalLinear_forward c inp t) act"
  by (cases "ConditionalLinear_forward c inp t"; cases "act (projr (ConditionalLinear_forward c inp t))")
     (simp_all add: and_then_def)

lemma gated_layers_rows:
  assumes "keeps_rows act" "length t = nrows inp \<or> length t = 1"
  shows "DiffusionSequential_forward (gated_layers rnd n_st (d # hs) act) inp t = Inr r \<Longrightarrow>
         nrows r = nrows inp"
proof (induction hs arbitrary: r rule: rev_induct)
  case Nil
  then show ?case by (simp add: gated_layers_single)
next
  case (snoc h hs)
  from snoc.prems obtain u g where
    u: "DiffusionSequential_forward (gated_layers rnd n_st (d # hs) act) inp t = Inr u" and
    g: "ConditionalLinear_forward
          (ConditionalLinear_init (rnd (Suc (length hs))) (last (d # hs)) h n_st) u t = Inr g" and
    r: "act g = Inr r"
    unfolding gated_layers_snoc DiffusionSequential_forward_append stage_pair
    by (auto simp: and_then_Inr_iff)
  have "nrows u = nrows inp" using snoc.IH [OF u] .
  then have "nrows g = nrows inp"
    using ConditionalLinear_forward_shape(1) [OF g] assms(2) by simp
  then show ?case using assms(1) r by (simp add: keeps_rows_def)
qed

lemma gated_layers_total:
  assumes "in_range n_st t" "shape_preserving act" "ncols inp = d"
    "length t = nrows inp \<or> length t = 1"
  shows "\<forall>h\<in>set hs. 0 < h \<Longrightarrow>
         \<exists>r. DiffusionSequential_forward (gated_layers rnd n_st (d # hs) act) inp t = Inr r \<and>
             ncols r = last (d # hs) \<and> nrows r = nrows inp"
proof (induction hs rule: rev_induct)
  case Nil
  then show ?case using assms(3) by (simp add: gated_layers_single)
next
  case (snoc h hs)
  then obtain u where
    u: "DiffusionSequential_forward (gated_layers rnd n_st (d # hs) act) inp t = Inr u"
       "ncols u = last (d # hs)" "nrows u = nrows inp"
    by auto
  have h: "0 < h" using snoc.prems by simp
  have steps: "length t = nrows u \<or> length t = 1" using assms(4) u(3) by simp
  obtain g where
    g: "ConditionalLinear_forward
          (ConditionalLinear_init (rnd (Suc (length hs))) (last (d # hs)) h n_st) u t = Inr g"
    using ConditionalLinear_forward_total [OF assms(1) [unfolded in_range_def] h u(2) steps]
    by blast
  have gs: "nrows g = nrows inp" "ncols g = h"
    using ConditionalLinear_forward_shape [OF g steps] u(3) by simp_all
  obtain r where r: "act g = Inr r" "nrows r = nrows g" "ncols r = ncols g"
    using assms(2) unfolding shape_preserving_def by blast
  have "DiffusionSequential_forward (gated_layers rnd n_st (d # hs @ [h]) act) inp t = Inr r"
    unfolding gated_layers_snoc DiffusionSequential_forward_append stage_pair
    by (simp add: u(1) g r(1) and_then_Inr del: last.simps)
  then show ?case using r gs by simp
qed

lemma torch_cat_enabled_total:
  assumes "cy \<longrightarrow> (\<exists>y0. y_0_hat = Some y0 \<and> ncols y0 = yd \<and> nrows y0 = nrows y_t)"
    "cx \<longrightarrow> (\<exists>x0. x = Some x0 \<and> ncols x0 = xd \<and> nrows x0 = nrows y_t)"
    "ncols y_t = yd"
  shows "\<exists>inp. torch_cat (enabled_components cx cy x y_t y_0_hat) = Inr inp \<and>
           ncols inp = yd + (if cx then xd else 0) + (if cy then yd else 0) \<and>
           nrows inp = nrows y_t"
  using assms
  by (cases cx; cases cy) (auto simp: enabled_components_def torch_cat_def nrows_def)

lemma torch_cat_enabled_rows:
  "torch_cat (enabled_components cx cy x y_t y_0_hat) = Inr inp \<Longrightarrow> nrows inp = nrows y_t"
  by (cases cx; cases cy)
     (auto simp: enabled_components_def torch_cat_def nrows_def split: if_splits)

text \<open>
  What the concatenation and the product hold: every row of \<open>cat_cols acc xs\<close> is the
  row of \<open>acc\<close> followed by the rows of \<open>xs\<close> in their order, and every entry of a
  product is the product of the entries at its position.
\<close>

lemma cat_cols_rows:
  "cat_cols acc xs = Inr r \<Longrightarrow>
     nrows r = nrows acc \<and> ncols r = ncols acc + sum_list (map ncols xs) \<and>
     (\<forall>i<nrows acc. rows r ! i = rows acc ! i @ concat (map (\<lambda>x. rows x ! i) xs))"
proof (induction xs arbitrary: acc)
  case Nil
  then show ?case by auto
next
  case (Cons x xs)
  let ?acc = "\<lparr> ncols = ncols acc + ncols x, rows = map2 (@) (rows acc) (rows x) \<rparr>"
  have eq: "nrows x = nrows acc" using Cons.prems by (simp split: if_splits)
  then have r: "cat_cols ?acc xs = Inr r" using Cons.prems by simp
  have n: "nrows ?acc = nrows acc" using eq by (simp add: nrows_def)
  have row: "rows ?acc ! i = rows acc ! i @ rows x ! i" if "i < nrows acc" for i
    using that eq by (simp add: nrows_def)
  from Cons.IH [OF r] show ?case using n row by (simp add: add.assoc)
qed

lemma torch_cat_pair:
  assumes "torch_cat [Some a, Some b] = Inr y"
  shows "nrows y = nrows a" "ncols y = ncols a + ncols b"
    "\<forall>i<nrows a. rows y ! i = rows a ! i @ rows b ! i"
  using cat_cols_rows [of a "[b]" y] assms by (simp_all add: torch_cat_def)

lemma torch_mul_entries:
  assumes "torch_mul a b = Inr r"
  shows "\<forall>i<nrows r. \<forall>j<ncols r. rows r ! i ! j = product_entry a b i j"
  using assms
  by (auto simp: torch_mul_def product_entry_def entry_def nrows_def
      split: option.splits)

lemma torch_cat_enabled_content:
  assumes "torch_cat (enabled_components cx cy x y_t y_0_hat) = Inr inp"
  shows "nrows inp = nrows y_t"
    "ncols inp = ncols y_t + (if cy then ncols (the y_0_hat) else 0) +
                 (if cx then ncols (the x) else 0)"
    "\<forall>i<nrows y_t. rows inp ! i =
       rows y_t ! i @ (if cy then rows (the y_0_hat) ! i else []) @
       (if cx then rows (the x) ! i else [])"
proof -
  have none: "None \<notin> set (enabled_components cx cy x y_t y_0_hat)"
    using assms by (auto simp: torch_cat_def split: if_splits)
  have cat: "cat_cols y_t ((if cy then [the y_0_hat] else []) @ (if cx then [the x] else [])) =
               Inr inp"
    using assms none by (cases cx; cases cy) (simp_all add: torch_cat_def enabled_components_def)
  note c = cat_cols_rows [OF cat]
  show "nrows inp = nrows y_t" using c by simp
  show "ncols inp = ncols y_t + (if cy then ncols (the y_0_hat) else 0) +
                 (if cx then ncols (the x) else 0)"
    using c by (cases cx; cases cy) simp_all
  show "\<forall>i<nrows y_t. rows inp ! i =
       rows y_t ! i @ (if cy then rows (the y_0_hat) ! i else []) @
       (if cx then rows (the x) ! i else [])"
    using c by (cases cx; cases cy) simp_all
qed


lemma forward_components:
  "ConditionalGuidedLinearModel_forward m x y_t y_0_hat t =
     and_then (torch_cat (enabled_components (cat_x m) (cat_y_pred m) x y_t y_0_hat))
       (\<lambda>inp. DiffusionSequential_forward (model m) inp t)"
  by (simp add: ConditionalGuidedLinearModel_forward_def enabled_components_def
      torch_cat_single)

lemma init_fields:
  "cat_x (ConditionalGuidedLinearModel_init rnd n_st xd yd n_hidden n_out cx cy act) = cx"
  "cat_y_pred (ConditionalGuidedLinearModel_init rnd n_st xd yd n_hidden n_out cx cy act) = cy"
  "model (ConditionalGuidedLinearModel_init rnd n_st xd yd n_hidden n_out cx cy act) =
     gated_layers rnd n_st (input_width cx cy xd yd # n_hidden) act @
       [NNLinear (nn_Linear (rnd 0) (last (input_width cx cy xd yd # n_hidden)) n_out)]"
  by (simp_all add: ConditionalGuidedLinearModel_init_def Let_def input_width_def del: last.simps)

subsection \<open>Facts about the example values\<close>

lemma shape_preserving_Softplus: "shape_preserving (Softplus_forward sp)"
  by (simp add: shape_preserving_def Softplus_forward_def nrows_def)

lemma keeps_rows_Softplus: "keeps_rows (Softplus_forward sp)"
  by (simp add: keeps_rows_def Softplus_forward_def nrows_def)

lemma softplus_large: "20 < v \<Longrightarrow> softplus v = v"
  by (simp add: softplus_def)

lemma upt_0_2: "[0..<2] = [0, 1]"
  by (simp add: numeral_2_eq_2)

lemma upt_0_3: "[0..<3] = [0, 1, 2]"
  by (simp add: numeral_3_eq_3 numeral_2_eq_2)

lemma upt_0_5: "[0..<5] = [0, 1, 2, 3, 4]"
  by (simp add: upt_rec)


subsection \<open>Claims about the guided models\<close>

text \<open>
  C4. With \<open>cat_x = False\<close> and \<open>cat_y_pred = False\<close> two forward calls that agree
  on \<open>y_t\<close> and \<open>t\<close> return the same result, whatever \<open>x\<close> and \<open>y_0_hat\<close> are
  (\<^verbatim>\<open>None\<close> included): the result is that of the layer stack on \<open>y_t\<close> and \<open>t\<close>.
\<close>

theorem forward_ignores_x_and_y_0_hat:
  assumes "\<not> cat_x m" "\<not> cat_y_pred m"
  shows "ConditionalGuidedLinearModel_forward m x y_t y_0_hat t =
           ConditionalGuidedLinearModel_forward m x' y_t y_0_hat' t \<and>
         ConditionalGuidedLinearModel_forward m x y_t y_0_hat t =
           DiffusionSequential_forward (model m) y_t t"
  using assms by (simp add: ConditionalGuidedLinearModel_forward_def and_then_def)

text \<open>
  A model without hidden layers: \<^verbatim>\<open>None\<close> for both ignored arguments, and tensors of
  unrelated shapes, give the same output.
\<close>

theorem forward_ignores_x_and_y_0_hat_witness:
  "ConditionalGuidedLinearModel_forward
     (ConditionalGuidedLinearModel_init (\<lambda>idx. unit_init) 2 3 2 [] 1 False False
        (Softplus_forward softplus))
     None (row1 [5, 7]) None [0] =
   ConditionalGuidedLinearModel_forward
     (ConditionalGuidedLinearModel_init (\<lambda>idx. unit_init) 2 3 2 [] 1 False False
        (Softplus_forward softplus))
     (Some (row1 [1, 2, 3])) (row1 [5, 7]) (Some (row1 [])) [0] \<and>
   ConditionalGuidedLinearModel_forward
     (ConditionalGuidedLinearModel_init (\<lambda>idx. unit_init) 2 3 2 [] 1 False False
        (Softplus_forward softplus))
     None (row1 [5, 7]) None [0] = Inr (row1 [12])"
proof -
  let ?m = "ConditionalGuidedLinearModel_init (\<lambda>idx. unit_init) 2 3 2 [] 1 False False
              (Softplus_forward softplus)"
  have flags: "\<not> cat_x ?m" "\<not> cat_y_pred ?m" by (simp_all add: init_fields)
  have run: "DiffusionSequential_forward (model ?m) (row1 [5, 7]) [0] = Inr (row1 [12])"
    by (simp add: init_fields gated_layers_single input_width_def nn_Linear_def unit_init_def
        Linear_forward_def row1_def and_then_Inr upt_0_2)
  note th = forward_ignores_x_and_y_0_hat [OF flags, of None "row1 [5, 7]" None "[0]"
        "Some (row1 [1, 2, 3])" "Some (row1 [])"]
  show ?thesis
    by (intro conjI, rule th [THEN conjunct1], simp only: th [THEN conjunct2] run)
qed

text \<open>
  C5. Construction of the convolutional model raises an assertion failure exactly when the
  inner model has \<open>cat_x\<close> set, or \<open>cat_y_pred\<close> set, or its \<open>y_dim\<close> is not twice
  the encoder's output width; otherwise it returns the model. No model exists on which a
  forward pass could run when it raises.
\<close>

theorem conv_init_assertions:
  "(\<exists>msg. ConditionalGuidedConvModel_init batch_norm sp p enc cgm = Inl (AssertionError msg)) =
     (cat_x cgm \<or> cat_y_pred cgm \<or>
      y_dim cgm \<noteq> 2 * out_features (snd (get_output_layer_name_and_module enc))) \<and>
   ((\<exists>m. ConditionalGuidedConvModel_init batch_norm sp p enc cgm = Inr m) =
     (\<not> cat_x cgm \<and> \<not> cat_y_pred cgm \<and>
      y_dim cgm = 2 * out_features (snd (get_output_layer_name_and_module enc))))"
  by (auto simp: ConditionalGuidedConvModel_init_def Let_def)

text \<open>
  An inner model with \<open>cat_x\<close> set, one with \<open>y_dim = 3\<close> for an encoder of width 1,
  and one that is accepted.
\<close>

theorem conv_init_assertions_witness:
  "(\<exists>msg. ConditionalGuidedConvModel_init example_norm softplus unit_init example_encoder
           (ConditionalGuidedLinearModel_init (\<lambda>idx. unit_init) 2 1 2 [] 1 True False
              (Softplus_forward softplus))
         = Inl (AssertionError msg)) \<and>
   (\<exists>msg. ConditionalGuidedConvModel_init example_norm softplus unit_init example_encoder
           (ConditionalGuidedLinearModel_init (\<lambda>idx. unit_init) 2 1 3 [] 1 False False
              (Softplus_forward softplus))
         = Inl (AssertionError msg)) \<and>
   (\<exists>m. ConditionalGuidedConvModel_init example_norm softplus unit_init example_encoder
           (ConditionalGuidedLinearModel_init (\<lambda>idx. unit_init) 2 1 2 [] 1 False False
              (Softplus_forward softplus))
         = Inr m)"
  using conv_init_assertions [of example_norm softplus unit_init example_encoder
          "ConditionalGuidedLinearModel_init (\<lambda>idx. unit_init) 2 1 2 [] 1 True False
             (Softplus_forward softplus)"]
        conv_init_assertions [of example_norm softplus unit_init example_encoder
          "ConditionalGuidedLinearModel_init (\<lambda>idx. unit_init) 2 1 3 [] 1 False False
             (Softplus_forward softplus)"]
        conv_init_assertions [of example_norm softplus unit_init example_encoder
          "ConditionalGuidedLinearModel_init (\<lambda>idx. unit_init) 2 1 2 [] 1 False False
             (Softplus_forward softplus)"]
  by (simp add: ConditionalGuidedLinearModel_init_def Let_def example_encoder_def
      get_output_layer_name_and_module_def nn_Linear_def)


text \<open>
  C2. The forward pass of a constructed convolutional model: encode \<open>x\<close>, normalise,
  pass through the connection module with \<open>t\<close>, concatenate \<open>[y_t, y_0_hat]\<close> along
  the last dimension, multiply the connection output with it elementwise, and apply the
  inner model with \<open>x = None\<close>, the product as \<open>y_t\<close>, \<open>y_0_hat = None\<close> and the
  same \<open>t\<close>. The connection module is the gated layer on \<open>t\<close>, its batch
  normalisation and a softplus. Every row of the concatenation is the row of \<open>y_t\<close>
  followed by the row of \<open>y_0_hat\<close>; every entry of the product is the product of the
  entries of the connection output and of the concatenation at its position (a dimension
  of size 1 broadcasts); the inner call is the inner layer stack on the product.
\<close>

theorem conv_forward_pipeline:
  assumes "ConditionalGuidedConvModel_init batch_norm sp p enc cgm = Inr m"
  shows "ConditionalGuidedConvModel_forward m x y_t y_0_hat t =
           and_then (enc_forward enc x) (\<lambda>encoded.
           and_then (batch_norm (out_features (snd (get_output_layer_name_and_module enc))) None
                       encoded) (\<lambda>normalized.
           and_then (DiffusionSequential_forward (connect_module m) normalized t) (\<lambda>connected.
           and_then (torch_cat [Some y_t, Some y_0_hat]) (\<lambda>y.
           and_then (torch_mul connected y) (\<lambda>product.
           ConditionalGuidedLinearModel_forward cgm None product None t))))) \<and>
         (\<forall>normalized.
            DiffusionSequential_forward (connect_module m) normalized t =
              and_then (ConditionalLinear_forward (ConditionalLinear_init p
                          (out_features (snd (get_output_layer_name_and_module enc)))
                          (out_features (snd (get_output_layer_name_and_module enc)))
                          (n_steps cgm)) normalized t) (\<lambda>gated.
              and_then (batch_norm (out_features (snd (get_output_layer_name_and_module enc)))
                          (Some (out_features (snd (get_output_layer_name_and_module enc))))
                          gated)
                (Softplus_forward sp))) \<and>
         (\<forall>y. torch_cat [Some y_t, Some y_0_hat] = Inr y \<longrightarrow>
            nrows y = nrows y_t \<and> ncols y = ncols y_t + ncols y_0_hat \<and>
            (\<forall>i<nrows y_t. rows y ! i = rows y_t ! i @ rows y_0_hat ! i)) \<and>
         (\<forall>connected y product. torch_mul connected y = Inr product \<longrightarrow>
            (\<forall>i<nrows product. \<forall>j<ncols product.
               rows product ! i ! j = product_entry connected y i j)) \<and>
         (\<forall>product.
            ConditionalGuidedLinearModel_forward cgm None product None t =
              DiffusionSequential_forward (model cgm) product t)"
proof -
  let ?w = "out_features (snd (get_output_layer_name_and_module enc))"
  have flags: "\<not> cat_x cgm" "\<not> cat_y_pred cgm"
    using assms by (auto simp: ConditionalGuidedConvModel_init_def Let_def split: if_splits)
  have m: "m = \<lparr> encoder = enc, cond_guide_model = cgm, conv_n_steps = n_steps cgm,
                 norm = batch_norm ?w None,
                 connect_module =
                   [CondLinear (ConditionalLinear_init p ?w ?w (n_steps cgm)),
                    Layer (batch_norm ?w (Some ?w)),
                    Layer (Softplus_forward sp)] \<rparr>"
    using assms by (auto simp: ConditionalGuidedConvModel_init_def Let_def split: if_splits)
  have a: "ConditionalGuidedConvModel_forward m x y_t y_0_hat t =
           and_then (enc_forward enc x) (\<lambda>encoded.
           and_then (batch_norm ?w None encoded) (\<lambda>normalized.
           and_then (DiffusionSequential_forward (connect_module m) normalized t) (\<lambda>connected.
           and_then (torch_cat [Some y_t, Some y_0_hat]) (\<lambda>y.
           and_then (torch_mul connected y) (\<lambda>product.
           ConditionalGuidedLinearModel_forward cgm None product None t)))))"
    by (simp add: ConditionalGuidedConvModel_forward_def m)
  have b: "DiffusionSequential_forward (connect_module m) normalized t =
              and_then (ConditionalLinear_forward (ConditionalLinear_init p ?w ?w (n_steps cgm))
                          normalized t) (\<lambda>gated.
              and_then (batch_norm ?w (Some ?w) gated) (Softplus_forward sp))" for normalized
  proof -
    have "and_then (Softplus_forward sp u) Inr = Softplus_forward sp u" for u
      by (simp add: Softplus_forward_def and_then_def)
    then show ?thesis by (simp add: m and_then_def split: sum.splits)
  qed
  have c: "nrows y = nrows y_t \<and> ncols y = ncols y_t + ncols y_0_hat \<and>
            (\<forall>i<nrows y_t. rows y ! i = rows y_t ! i @ rows y_0_hat ! i)"
    if "torch_cat [Some y_t, Some y_0_hat] = Inr y" for y
    using torch_cat_pair [OF that] by simp
  have d: "\<forall>i<nrows product. \<forall>j<ncols product.
               rows product ! i ! j = product_entry connected y i j"
    if "torch_mul connected y = Inr product" for connected y product
    using torch_mul_entries [OF that] .
  have e: "ConditionalGuidedLinearModel_forward cgm None product None t =
              DiffusionSequential_forward (model cgm) product t" for product
    using flags by (simp add: ConditionalGuidedLinearModel_forward_def and_then_def)
  show ?thesis using a b c d e by blast
qed


text \<open>
  An encoder of width 1 (a linear layer on three features) and an inner model with
  \<open>y_dim = 2\<close>, run on a batch of two samples with the steps 0 and 1. The encoder
  gives 321 and 102, the normalisation 642 and 204, the gates 2 and 3 of the two steps
  1284 and 612, the second normalisation 3852 and 1836, which the softplus keeps; the
  products with the rows \<open>[2, 5]\<close> and \<open>[3, 7]\<close> are \<open>[7704, 19260]\<close> and
  \<open>[5508, 12852]\<close>, and the inner linear layer returns 200304 and 134028.
\<close>

theorem conv_forward_pipeline_witness:
  "\<exists>m y. ConditionalGuidedConvModel_init example_norm softplus example_init linear_encoder
          (ConditionalGuidedLinearModel_init (\<lambda>idx. example_init) 2 1 2 [] 1 False False
             (Softplus_forward softplus))
        = Inr m \<and>
       torch_cat [Some \<lparr>ncols = 1, rows = [[2], [3::real]]\<rparr>,
                  Some \<lparr>ncols = 1, rows = [[5], [7]]\<rparr>] = Inr y \<and>
       rows y ! 0 = [2, 5] \<and> rows y ! 1 = [3, 7] \<and>
       product_entry \<lparr>ncols = 1, rows = [[3852], [1836]]\<rparr> y 1 1 = 12852 \<and>
       ConditionalGuidedConvModel_forward m \<lparr>ncols = 3, rows = [[1, 2, 3], [2, 0, 1]]\<rparr>
           \<lparr>ncols = 1, rows = [[2], [3]]\<rparr> \<lparr>ncols = 1, rows = [[5], [7]]\<rparr> [0, 1] =
         Inr \<lparr>ncols = 1, rows = [[200304], [134028]]\<rparr>"
proof -
  let ?act = "Softplus_forward softplus"
  let ?cgm = "ConditionalGuidedLinearModel_init (\<lambda>idx. example_init) 2 1 2 [] 1 False False ?act"
  let ?x = "\<lparr>ncols = 3, rows = [[1, 2, 3], [2, 0, 1::real]]\<rparr>"
  let ?y_t = "\<lparr>ncols = 1, rows = [[2], [3::real]]\<rparr>"
  let ?y_0 = "\<lparr>ncols = 1, rows = [[5], [7::real]]\<rparr>"
  obtain m where
    m: "ConditionalGuidedConvModel_init example_norm softplus example_init linear_encoder ?cgm =
          Inr m"
    by (simp add: ConditionalGuidedConvModel_init_def ConditionalGuidedLinearModel_init_def Let_def
        linear_encoder_def get_output_layer_name_and_module_def nn_Linear_def)
  have w: "out_features (snd (get_output_layer_name_and_module linear_encoder)) = 1"
    by (simp add: linear_encoder_def get_output_layer_name_and_module_def nn_Linear_def)
  have n: "n_steps ?cgm = 2" by (simp add: ConditionalGuidedLinearModel_init_def Let_def)
  have encf: "enc_forward linear_encoder ?x = Inr \<lparr>ncols = 1, rows = [[321], [102]]\<rparr>"
    by (simp add: linear_encoder_def nn_Linear_def example_init_def Linear_forward_def upt_0_3)
  have norm1: "example_norm 1 None \<lparr>ncols = 1, rows = [[321], [102]]\<rparr> =
                 Inr \<lparr>ncols = 1, rows = [[642], [204]]\<rparr>"
    by (simp add: example_norm_def)
  have gate: "ConditionalLinear_forward (ConditionalLinear_init example_init 1 1 2)
                \<lparr>ncols = 1, rows = [[642], [204]]\<rparr> [0, 1] =
                Inr \<lparr>ncols = 1, rows = [[1284], [612]]\<rparr>"
    by (simp add: ConditionalLinear_forward_def ConditionalLinear_init_def nn_Linear_def
        nn_Embedding_def example_init_def Linear_forward_def Embedding_forward_def torch_view_def
        torch_mul_def broadcast_dim_def entry_def nrows_def and_then_Inr upt_0_2)
  have norm2: "example_norm 1 (Some 1) \<lparr>ncols = 1, rows = [[1284], [612]]\<rparr> =
                 Inr \<lparr>ncols = 1, rows = [[3852], [1836]]\<rparr>"
    by (simp add: example_norm_def)
  have soft: "?act \<lparr>ncols = 1, rows = [[3852], [1836]]\<rparr> =
                Inr \<lparr>ncols = 1, rows = [[3852], [1836]]\<rparr>"
    by (simp add: Softplus_forward_def softplus_large)
  have cat: "torch_cat [Some ?y_t, Some ?y_0] = Inr \<lparr>ncols = 2, rows = [[2, 5], [3, 7]]\<rparr>"
    by (simp add: torch_cat_def nrows_def)
  have mul: "torch_mul \<lparr>ncols = 1, rows = [[3852], [1836::real]]\<rparr>
               \<lparr>ncols = 2, rows = [[2, 5], [3, 7]]\<rparr> =
               Inr \<lparr>ncols = 2, rows = [[7704, 19260], [5508, 12852]]\<rparr>"
    by (simp add: torch_mul_def broadcast_dim_def entry_def nrows_def upt_0_2)
  have inner: "DiffusionSequential_forward (model ?cgm)
                 \<lparr>ncols = 2, rows = [[7704, 19260], [5508, 12852]]\<rparr> [0, 1] =
                 Inr \<lparr>ncols = 1, rows = [[200304], [134028]]\<rparr>"
    by (simp add: init_fields gated_layers_single input_width_def nn_Linear_def example_init_def
        Linear_forward_def and_then_Inr upt_0_2)
  note th = conv_forward_pipeline [OF m, of ?x ?y_t ?y_0 "[0, 1]"]
  have connect: "DiffusionSequential_forward (connect_module m)
                   \<lparr>ncols = 1, rows = [[642], [204]]\<rparr> [0, 1] =
                   Inr \<lparr>ncols = 1, rows = [[3852], [1836]]\<rparr>"
    unfolding th [THEN conjunct2, THEN conjunct1, rule_format] w n
    by (simp only: gate norm2 and_then_Inr soft)
  have run: "ConditionalGuidedConvModel_forward m ?x ?y_t ?y_0 [0, 1] =
          Inr \<lparr>ncols = 1, rows = [[200304], [134028]]\<rparr>"
    unfolding th [THEN conjunct1]
      th [THEN conjunct2, THEN conjunct2, THEN conjunct2, THEN conjunct2, rule_format] w
    by (simp only: encf norm1 and_then_Inr connect cat mul inner)
  have "rows \<lparr>ncols = 2, rows = [[2, 5], [3, 7::real]]\<rparr> ! 0 = [2, 5]"
       "rows \<lparr>ncols = 2, rows = [[2, 5], [3, 7::real]]\<rparr> ! 1 = [3, 7]"
    using th [THEN conjunct2, THEN conjunct2, THEN conjunct1, rule_format, OF cat]
    by (simp_all add: nrows_def)
  moreover have "product_entry \<lparr>ncols = 1, rows = [[3852], [1836]]\<rparr>
                   \<lparr>ncols = 2, rows = [[2, 5], [3, 7::real]]\<rparr> 1 1 = 12852"
    using th [THEN conjunct2, THEN conjunct2, THEN conjunct2, THEN conjunct1, rule_format,
              OF mul, of 1 1]
    by (simp add: nrows_def)
  ultimately show ?thesis using m cat run by blast
qed


text \<open>
  C6. For every flag setting the forward pass of a constructed model concatenates the
  enabled components in the order \<open>[y_t, y_0_hat, x]\<close>, runs the result through the
  gated stack, and returns the output of the final plain linear layer. Every row of the
  network input is the row of \<open>y_t\<close>, followed by the row of \<open>y_0_hat\<close> iff
  \<open>cat_y_pred\<close>, followed by the row of \<open>x\<close> iff \<open>cat_x\<close>. Whatever the forward
  pass returns has \<open>n_outputs\<close> columns, and as many rows as \<open>y_t\<close> when \<open>t\<close> has
  one index per row or a single index and the activation keeps the number of rows. It does
  return when the indices are in range, the arguments have the shapes the model was built
  for, no hidden width is 0 and the activation preserves shapes. (One index per row is the
  \<open>t\<close> of shape \<open>[batch]\<close>; a single index, which broadcasts over the rows, is the
  \<open>t\<close> of shape \<open>[1]\<close> of the docstrings.)
\<close>

theorem guided_linear_forward_contract:
  "ConditionalGuidedLinearModel_forward
       (ConditionalGuidedLinearModel_init rnd n_st xd yd n_hidden n_out cx cy act) x y_t y_0_hat t =
     and_then (torch_cat (enabled_components cx cy x y_t y_0_hat)) (\<lambda>inp.
     and_then (DiffusionSequential_forward
                 (gated_layers rnd n_st (input_width cx cy xd yd # n_hidden) act) inp t) (\<lambda>hidden.
     Linear_forward (nn_Linear (rnd 0) (last (input_width cx cy xd yd # n_hidden)) n_out) hidden)) \<and>
   (\<forall>inp. torch_cat (enabled_components cx cy x y_t y_0_hat) = Inr inp \<longrightarrow>
      nrows inp = nrows y_t \<and>
      ncols inp = ncols y_t + (if cy then ncols (the y_0_hat) else 0) +
                  (if cx then ncols (the x) else 0) \<and>
      (\<forall>i<nrows y_t. rows inp ! i =
         rows y_t ! i @ (if cy then rows (the y_0_hat) ! i else []) @
         (if cx then rows (the x) ! i else []))) \<and>
   (\<forall>out. ConditionalGuidedLinearModel_forward
            (ConditionalGuidedLinearModel_init rnd n_st xd yd n_hidden n_out cx cy act)
            x y_t y_0_hat t = Inr out \<longrightarrow>
          ncols out = n_out \<and> wf_tensor out \<and>
          (keeps_rows act \<and> (length t = nrows y_t \<or> length t = 1) \<longrightarrow> nrows out = nrows y_t)) \<and>
   (in_range n_st t \<and> shape_preserving act \<and> (\<forall>h\<in>set n_hidden. 0 < h) \<and>
    well_shaped cx cy xd yd x y_t y_0_hat t \<longrightarrow>
      (\<exists>out. ConditionalGuidedLinearModel_forward
               (ConditionalGuidedLinearModel_init rnd n_st xd yd n_hidden n_out cx cy act)
               x y_t y_0_hat t = Inr out \<and>
             nrows out = nrows y_t \<and> ncols out = n_out))"
proof -
  let ?m = "ConditionalGuidedLinearModel_init rnd n_st xd yd n_hidden n_out cx cy act"
  let ?d = "input_width cx cy xd yd"
  let ?stack = "gated_layers rnd n_st (?d # n_hidden) act"
  let ?final = "nn_Linear (rnd 0) (last (?d # n_hidden)) n_out"
  have last_stage: "DiffusionSequential_forward [NNLinear ?final] u t = Linear_forward ?final u"
    for u
    by (cases "Linear_forward ?final u") (simp_all add: and_then_def)
  have eq: "ConditionalGuidedLinearModel_forward ?m x y_t y_0_hat t =
     and_then (torch_cat (enabled_components cx cy x y_t y_0_hat)) (\<lambda>inp.
     and_then (DiffusionSequential_forward ?stack inp t) (\<lambda>hidden.
     Linear_forward ?final hidden))"
    unfolding forward_components init_fields DiffusionSequential_forward_append last_stage ..
  have content: "nrows inp = nrows y_t \<and>
      ncols inp = ncols y_t + (if cy then ncols (the y_0_hat) else 0) +
                  (if cx then ncols (the x) else 0) \<and>
      (\<forall>i<nrows y_t. rows inp ! i =
         rows y_t ! i @ (if cy then rows (the y_0_hat) ! i else []) @
         (if cx then rows (the x) ! i else []))"
    if "torch_cat (enabled_components cx cy x y_t y_0_hat) = Inr inp" for inp
    using torch_cat_enabled_content [OF that] by blast
  have shape: "ncols out = n_out \<and> wf_tensor out \<and>
          (keeps_rows act \<and> (length t = nrows y_t \<or> length t = 1) \<longrightarrow> nrows out = nrows y_t)"
    if "ConditionalGuidedLinearModel_forward ?m x y_t y_0_hat t = Inr out" for out
  proof -
    from that obtain inp hidden where
      inp: "torch_cat (enabled_components cx cy x y_t y_0_hat) = Inr inp" and
      hidden: "DiffusionSequential_forward ?stack inp t = Inr hidden" and
      out: "Linear_forward ?final hidden = Inr out"
      unfolding eq by (auto simp: and_then_Inr_iff)
    have rows: "nrows out = nrows y_t"
      if "keeps_rows act" "length t = nrows y_t \<or> length t = 1"
    proof -
      have i: "nrows inp = nrows y_t" using torch_cat_enabled_rows [OF inp] .
      then have "length t = nrows inp \<or> length t = 1" using that(2) by simp
      then have "nrows hidden = nrows inp" using gated_layers_rows [OF that(1) _ hidden] by simp
      then show ?thesis using Linear_forward_shape(2) [OF out] i by simp
    qed
    show ?thesis using Linear_forward_shape(1,3) [OF out] rows by (simp add: nn_Linear_def)
  qed
  have total: "\<exists>out. ConditionalGuidedLinearModel_forward ?m x y_t y_0_hat t = Inr out \<and>
             nrows out = nrows y_t \<and> ncols out = n_out"
    if t: "in_range n_st t" and act: "shape_preserving act" and pos: "\<forall>h\<in>set n_hidden. 0 < h"
      and ws: "well_shaped cx cy xd yd x y_t y_0_hat t"
  proof -
    obtain inp where
      inp: "torch_cat (enabled_components cx cy x y_t y_0_hat) = Inr inp"
           "ncols inp = ?d" "nrows inp = nrows y_t"
      using torch_cat_enabled_total [of cy y_0_hat yd y_t cx x xd] ws
      unfolding well_shaped_def input_width_def by blast
    have len: "length t = nrows inp \<or> length t = 1"
      using inp(3) ws by (simp add: well_shaped_def)
    obtain hidden where
      hidden: "DiffusionSequential_forward ?stack inp t = Inr hidden"
              "ncols hidden = last (?d # n_hidden)" "nrows hidden = nrows inp"
      using gated_layers_total [OF t act inp(2) len pos] by blast
    obtain out where out: "Linear_forward ?final hidden = Inr out"
      using Linear_forward_total [of hidden ?final] hidden(2) by (auto simp: nn_Linear_def)
    have "ConditionalGuidedLinearModel_forward ?m x y_t y_0_hat t = Inr out"
      unfolding eq by (simp add: inp(1) hidden(1) out and_then_Inr del: last.simps)
    moreover have "nrows out = nrows y_t" "ncols out = n_out"
      using Linear_forward_shape(1,2) [OF out] hidden(3) inp(3) by (simp_all add: nn_Linear_def)
    ultimately show ?thesis by blast
  qed
  show ?thesis using eq content shape total by blast
qed


text \<open>
  Both flags set, one hidden layer of width 2, softplus activation, a batch of two samples
  with the steps 1 and 0. The network input has the rows \<open>[1, 2, 3, 4, 5]\<close> and
  \<open>[2, 1, 0, 3, 4]\<close>; the hidden layer gives \<open>[54321, 108642]\<close> and
  \<open>[43012, 86024]\<close>, gated by \<open>[3, 4]\<close> (step 1) and \<open>[2, 3]\<close> (step 0), which
  the softplus keeps; the final layer returns 4508643 and 2666744.
\<close>

theorem guided_linear_forward_contract_witness:
  "ConditionalGuidedLinearModel_forward
     (ConditionalGuidedLinearModel_init (\<lambda>idx. example_init) 2 1 2 [2] 1 True True
        (Softplus_forward softplus))
     (Some \<lparr>ncols = 1, rows = [[5], [4]]\<rparr>) \<lparr>ncols = 2, rows = [[1, 2], [2, 1]]\<rparr>
     (Some \<lparr>ncols = 2, rows = [[3, 4], [0, 3]]\<rparr>) [1, 0] =
     Inr \<lparr>ncols = 1, rows = [[4508643], [2666744]]\<rparr> \<and>
   (\<exists>inp. torch_cat (enabled_components True True (Some \<lparr>ncols = 1, rows = [[5], [4::real]]\<rparr>)
              \<lparr>ncols = 2, rows = [[1, 2], [2, 1]]\<rparr>
              (Some \<lparr>ncols = 2, rows = [[3, 4], [0, 3]]\<rparr>)) = Inr inp \<and>
          ncols inp = 5 \<and> rows inp ! 0 = [1, 2, 3, 4, 5] \<and> rows inp ! 1 = [2, 1, 0, 3, 4]) \<and>
   (\<exists>out. ConditionalGuidedLinearModel_forward
            (ConditionalGuidedLinearModel_init (\<lambda>idx. example_init) 2 1 2 [2] 1 True True
               (Softplus_forward softplus))
            (Some \<lparr>ncols = 1, rows = [[5], [4]]\<rparr>) \<lparr>ncols = 2, rows = [[1, 2], [2, 1]]\<rparr>
            (Some \<lparr>ncols = 2, rows = [[3, 4], [0, 3]]\<rparr>) [1, 0] = Inr out \<and>
          nrows out = 2 \<and> ncols out = 1 \<and> wf_tensor out)"
proof -
  let ?act = "Softplus_forward softplus"
  let ?x = "\<lparr>ncols = 1, rows = [[5], [4::real]]\<rparr>"
  let ?y_t = "\<lparr>ncols = 2, rows = [[1, 2], [2, 1::real]]\<rparr>"
  let ?y_0 = "\<lparr>ncols = 2, rows = [[3, 4], [0, 3::real]]\<rparr>"
  let ?inp = "\<lparr>ncols = 5, rows = [[1, 2, 3, 4, 5], [2, 1, 0, 3, 4::real]]\<rparr>"
  let ?m = "ConditionalGuidedLinearModel_init (\<lambda>idx. example_init) 2 1 2 [2] 1 True True ?act"
  note th = guided_linear_forward_contract [of "\<lambda>idx. example_init" 2 1 2 "[2]" 1 True True
        ?act "Some ?x" ?y_t "Some ?y_0" "[1, 0]"]
  have cat: "torch_cat (enabled_components True True (Some ?x) ?y_t (Some ?y_0)) = Inr ?inp"
    by (simp add: enabled_components_def torch_cat_def nrows_def)
  have width: "input_width True True 1 2 = 5" by (simp add: input_width_def)
  have stack: "gated_layers (\<lambda>idx. example_init) 2 [5, 2] ?act =
                 [CondLinear (ConditionalLinear_init example_init 5 2 2), Layer ?act]"
    using gated_layers_snoc [of "\<lambda>idx. example_init" 2 5 "[]" 2 ?act]
    by (simp add: gated_layers_single)
  have gate: "ConditionalLinear_forward (ConditionalLinear_init example_init 5 2 2) ?inp [1, 0] =
                Inr \<lparr>ncols = 2, rows = [[162963, 434568], [86024, 258072]]\<rparr>"
    by (simp add: ConditionalLinear_forward_def ConditionalLinear_init_def nn_Linear_def
        nn_Embedding_def example_init_def Linear_forward_def Embedding_forward_def torch_view_def
        torch_mul_def broadcast_dim_def entry_def nrows_def and_then_Inr upt_0_2 upt_0_5)
  have soft: "?act \<lparr>ncols = 2, rows = [[162963, 434568], [86024, 258072]]\<rparr> =
                Inr \<lparr>ncols = 2, rows = [[162963, 434568], [86024, 258072]]\<rparr>"
    by (simp add: Softplus_forward_def softplus_large)
  have hidden: "DiffusionSequential_forward (gated_layers (\<lambda>idx. example_init) 2 [5, 2] ?act)
                  ?inp [1, 0] =
                  Inr \<lparr>ncols = 2, rows = [[162963, 434568], [86024, 258072]]\<rparr>"
    unfolding stack stage_pair by (simp only: gate and_then_Inr soft)
  have final: "Linear_forward (nn_Linear example_init (last [5, 2]) 1)
                 \<lparr>ncols = 2, rows = [[162963, 434568], [86024, 258072]]\<rparr> =
                 Inr \<lparr>ncols = 1, rows = [[4508643], [2666744]]\<rparr>"
    by (simp add: nn_Linear_def example_init_def Linear_forward_def upt_0_2)
  have run: "ConditionalGuidedLinearModel_forward ?m (Some ?x) ?y_t (Some ?y_0) [1, 0] =
               Inr \<lparr>ncols = 1, rows = [[4508643], [2666744]]\<rparr>"
    unfolding th [THEN conjunct1] width
    by (simp only: cat and_then_Inr hidden final)
  have content: "ncols ?inp = 5 \<and> rows ?inp ! 0 = [1, 2, 3, 4, 5] \<and>
                 rows ?inp ! 1 = [2, 1, 0, 3, 4]"
    using th [THEN conjunct2, THEN conjunct1, rule_format, OF cat]
    by (simp add: nrows_def)
  have "in_range 2 [1, 0]" by (simp add: in_range_def)
  moreover have "\<forall>h\<in>set [2::nat]. 0 < h" by simp
  moreover have "well_shaped True True 1 2 (Some ?x) ?y_t (Some ?y_0) [1, 0]"
    by (simp add: well_shaped_def nrows_def)
  ultimately have hyps: "in_range 2 [1, 0] \<and> shape_preserving ?act \<and>
      (\<forall>h\<in>set [2::nat]. 0 < h) \<and>
      well_shaped True True 1 2 (Some ?x) ?y_t (Some ?y_0) [1, 0]"
    using shape_preserving_Softplus by blast
  obtain out where out:
      "ConditionalGuidedLinearModel_forward ?m (Some ?x) ?y_t (Some ?y_0) [1, 0] = Inr out"
      "nrows out = nrows ?y_t" "ncols out = 1"
    using th [THEN conjunct2, THEN conjunct2, THEN conjunct2, rule_format, OF hyps] by blast
  have "wf_tensor out"
    using th [THEN conjunct2, THEN conjunct2, THEN conjunct1, rule_format, OF out(1)] by blast
  then have ex: "\<exists>out. ConditionalGuidedLinearModel_forward ?m (Some ?x) ?y_t (Some ?y_0) [1, 0] =
                   Inr out \<and> nrows out = 2 \<and> ncols out = 1 \<and> wf_tensor out"
    using out by (auto simp: nrows_def)
  show ?thesis using run cat content ex by blast
qed

end
